theory Spec2Isabelle
  imports Complex_Main
begin

section \<open>JavaScript strings and exceptions\<close>

text \<open>
  A JavaScript string is a sequence of UTF-16 code units, here natural numbers (each
  below 65536; where the source computes a code unit, the wrap-around is written out).
  String literals of the source are written \<open>js ''...''\<close>.
\<close>

type_synonym jschar = nat
type_synonym jsstring = "jschar list"

definition js :: "string \<Rightarrow> jsstring" where
  "js s = map of_char s"

text \<open>The exceptions the modelled code can meet, by constructor name.\<close>

datatype exn =
    TypeError jsstring
  | SyntaxError
  | Error jsstring
  | InvalidCharacterError
  | QuotaExceededError
  | HostError jsstring

text \<open>
  \<open>Array.prototype.slice(start)\<close> and \<open>slice(start, end)\<close>: a negative index counts
  from the end, and both ends are clamped to the array.
\<close>

definition relIndex :: "int \<Rightarrow> nat \<Rightarrow> nat" where
  "relIndex i len = (if i < 0 then nat (max (int len + i) 0) else min (nat i) len)"

definition slice_from :: "int \<Rightarrow> 'a list \<Rightarrow> 'a list" where
  "slice_from start xs = drop (relIndex start (length xs)) xs"

definition slice :: "int \<Rightarrow> int \<Rightarrow> 'a list \<Rightarrow> 'a list" where
  "slice start end xs =
     (let k = relIndex start (length xs); fin = relIndex end (length xs)
      in take (fin - k) (drop k xs))"

section \<open>Storage service\<close>

text \<open>
  \<open>localStorage\<close> maps keys to strings. \<open>setItem\<close> throws
  \<open>QuotaExceededError\<close> when the host refuses the write; which writes the host
  accepts is its own business, so it is the parameter \<open>fits\<close>. The environment
  of the service is the store and the console.
\<close>

type_synonym localStorage = "jsstring \<rightharpoonup> jsstring"

type_synonym quota = "localStorage \<Rightarrow> jsstring \<Rightarrow> jsstring \<Rightarrow> bool"

record env =
  store :: localStorage
  console :: "(jsstring \<times> exn) list"

definition setItem :: "quota \<Rightarrow> jsstring \<Rightarrow> jsstring \<Rightarrow> localStorage \<Rightarrow> exn + localStorage" where
  "setItem fits k v ls = (if fits ls k v then Inr (ls(k \<mapsto> v)) else Inl QuotaExceededError)"

definition getItem :: "jsstring \<Rightarrow> localStorage \<Rightarrow> jsstring option" where
  "getItem k ls = ls k"

definition removeItem :: "jsstring \<Rightarrow> localStorage \<Rightarrow> localStorage" where
  "removeItem k ls = ls(k := None)"

definition console_error :: "string \<Rightarrow> exn \<Rightarrow> env \<Rightarrow> env" where
  "console_error msg e w = w\<lparr>console := console w @ [(js msg, e)]\<rparr>"

definition KEY_API_KEY :: jsstring where "KEY_API_KEY = js ''excel_ai_api_key''"
definition KEY_PROVIDER :: jsstring where "KEY_PROVIDER = js ''excel_ai_provider''"
definition KEY_MODEL :: jsstring where "KEY_MODEL = js ''excel_ai_model''"
definition KEY_MESSAGES :: jsstring where "KEY_MESSAGES = js ''excel_ai_messages''"

text \<open>
  \<open>saveMessages\<close>: keep the last 50 messages, serialise, store. \<open>JSON.stringify\<close>
  is the parameter \<open>stringify\<close> (it throws on values it cannot serialise); whatever
  is thrown inside the \<open>try\<close> is logged and the store is left as it was.
\<close>

definition saveMessages ::
  "quota \<Rightarrow> ('m list \<Rightarrow> exn + jsstring) \<Rightarrow> 'm list \<Rightarrow> env \<Rightarrow> env" where
  "saveMessages fits stringify messages w =
     (let trimmed = slice_from (- 50) messages in
      case stringify trimmed of
        Inl e \<Rightarrow> console_error ''Failed to save messages:'' e w
      | Inr s \<Rightarrow>
          (case setItem fits KEY_MESSAGES s (store w) of
             Inl e \<Rightarrow> console_error ''Failed to save messages:'' e w
           | Inr ls \<Rightarrow> w\<lparr>store := ls\<rparr>))"

definition clearMessages :: "env \<Rightarrow> env" where
  "clearMessages w = w\<lparr>store := removeItem KEY_MESSAGES (store w)\<rparr>"

section \<open>Properties of the storage service\<close>

lemma slice_from_neg:
  "0 < n \<Longrightarrow> slice_from (- int n) xs = drop (length xs - n) xs"
  by (simp add: slice_from_def relIndex_def nat_diff_distrib' max_def)

lemma saveMessages_failure_keeps_store:
  "(\<not> (\<exists>s. stringify (slice_from (- 50) messages) = Inr s \<and> fits (store w) KEY_MESSAGES s))
     \<Longrightarrow> store (saveMessages fits stringify messages w) = store w"
  by (auto simp: saveMessages_def setItem_def console_error_def Let_def split: sum.splits)

text \<open>
  C9. The list that \<open>saveMessages\<close> persists is the most recent 50 entries: the whole
  list when it has at most 50 entries, otherwise its last 50 in their order. The stored
  string is the serialisation of exactly that list, whenever the serialisation and the
  write succeed.
\<close>

theorem saveMessages_keeps_most_recent_50:
  assumes "kept = (if length messages \<le> 50 then messages else drop (length messages - 50) messages)"
    and "stringify kept = Inr s"
    and "fits (store w) KEY_MESSAGES s"
  shows "store (saveMessages fits stringify messages w) = (store w)(KEY_MESSAGES \<mapsto> s)
       \<and> length kept = min (length messages) 50
       \<and> (\<exists>older. messages = older @ kept)"
proof -
  have k: "slice_from (- 50) messages = kept"
    using slice_from_neg [of 50 messages] assms(1) by simp
  have "store (saveMessages fits stringify messages w) = (store w)(KEY_MESSAGES \<mapsto> s)"
    using assms(2,3) by (simp add: saveMessages_def k setItem_def)
  moreover have "length kept = min (length messages) 50"
    using assms(1) by auto
  moreover have "\<exists>older. messages = older @ kept"
  proof (cases "length messages \<le> 50")
    case True
    then show ?thesis using assms(1) by simp
  next
    case False
    then have "messages = take (length messages - 50) messages @ kept"
      using assms(1) by simp
    then show ?thesis by blast
  qed
  ultimately show ?thesis by blast
qed

theorem saveMessages_keeps_most_recent_50_witness:
  "store (saveMessages (\<lambda>ls k v. True) (\<lambda>ms. Inr (map of_nat ms)) [1..<61]
            \<lparr>store = Map.empty, console = []\<rparr>)
     = [KEY_MESSAGES \<mapsto> map of_nat [11..<61]]
   \<and> length [11..<61] = min (length [1..<61]) 50
   \<and> (\<exists>older. [1..<61] = older @ [11..<61])"
proof -
  have d: "[11..<61] = drop 10 [1..<61]"
    by simp
  have "[11..<61] = (if length [1..<61] \<le> 50 then [1..<61] else drop (length [1..<61] - 50) [1..<61])"
    using d by simp
  from saveMessages_keeps_most_recent_50 [where fits = "\<lambda>ls k v. True"
      and stringify = "\<lambda>ms. Inr (map of_nat ms)" and w = "\<lparr>store = Map.empty, console = []\<rparr>", OF this]
  show ?thesis by simp
qed



section \<open>Text helpers\<close>

definition NL :: jsstring where "NL = [10]"
definition DQ :: jsstring where "DQ = [34]"

text \<open>Decimal rendering of a non-negative integer, as \<open>String(n)\<close> gives it.\<close>

fun decimal :: "nat \<Rightarrow> jsstring" where
  "decimal n = (if n < 10 then [48 + n] else decimal (n div 10) @ [48 + n mod 10])"

declare decimal.simps [simp del]

text \<open>\<open>Array.prototype.join\<close> on an array of strings.\<close>

fun joinStrings :: "jsstring \<Rightarrow> jsstring list \<Rightarrow> jsstring" where
  "joinStrings sep [] = []"
| "joinStrings sep [x] = x"
| "joinStrings sep (x # y # ys) = x @ sep @ joinStrings sep (y # ys)"

fun startsWith :: "'a list \<Rightarrow> 'a list \<Rightarrow> bool" where
  "startsWith s [] = True"
| "startsWith [] (p # ps) = False"
| "startsWith (c # cs) (p # ps) = (c = p \<and> startsWith cs ps)"


section \<open>Context serializer\<close>

text \<open>
  A cell of \<open>Range.values\<close> or \<open>Range.formulas\<close> is a string, a number or a
  boolean. Numbers are IEEE doubles in the source; the model keeps their value and leaves
  \<open>Number.prototype.toString\<close> as the parameter \<open>ns\<close>.
\<close>

datatype cell = CellString jsstring | CellNumber rat | CellBoolean bool

record SheetData =
  name :: jsstring
  usedRange :: jsstring
  values2d :: "cell list list"
  formulas :: "cell list list"
  rowCount :: nat
  columnCount :: nat

record WorkbookContext =
  activeSheetName :: jsstring
  sheets :: "jsstring list"
  activeSheetData :: "SheetData option"

fun cellToString :: "(rat \<Rightarrow> jsstring) \<Rightarrow> cell \<Rightarrow> jsstring" where
  "cellToString ns (CellString s) = s"
| "cellToString ns (CellNumber q) = ns q"
| "cellToString ns (CellBoolean b) = (if b then js ''true'' else js ''false'')"

fun cellTruthy :: "cell \<Rightarrow> bool" where
  "cellTruthy (CellString s) = (s \<noteq> [])"
| "cellTruthy (CellNumber q) = (q \<noteq> 0)"
| "cellTruthy (CellBoolean b) = b"

fun isString :: "cell \<Rightarrow> bool" where
  "isString (CellString s) = True"
| "isString c = False"

text \<open>\<open>formula && typeof formula === 'string' && formula.startsWith('=')\<close>\<close>

definition isFormula :: "cell \<Rightarrow> bool" where
  "isFormula formula =
     (cellTruthy formula \<and> isString formula \<and>
      (case formula of CellString s \<Rightarrow> startsWith s (js ''='') | _ \<Rightarrow> False))"

text \<open>
  The \<open>for\<close> loop over the previewed rows. \<open>data.values[i]\<close> beyond the array is
  \<open>undefined\<close>, whose \<open>join\<close> is a TypeError.
\<close>

function rowsLoop ::
  "(rat \<Rightarrow> jsstring) \<Rightarrow> cell list list \<Rightarrow> nat \<Rightarrow> nat \<Rightarrow> jsstring \<Rightarrow> exn + jsstring" where
  "rowsLoop ns vals maxRows i context =
     (if i < maxRows then
        (if i < length vals then
           rowsLoop ns vals maxRows (i + 1)
             (context @ js ''Row '' @ decimal (i + 1) @ js '': ''
                @ joinStrings (js '' | '') (map (cellToString ns) (vals ! i)) @ NL)
         else Inl (TypeError (js ''Cannot read properties of undefined (reading 'join')'')))
      else Inr context)"
  by pat_completeness auto
termination
  by (relation "measure (\<lambda>(ns, vals, maxRows, i, context). maxRows - i)") auto

declare rowsLoop.simps [simp del]

text \<open>The two nested \<open>forEach\<close> loops that collect the formula cells.\<close>

fun formulasOfRow :: "(rat \<Rightarrow> jsstring) \<Rightarrow> nat \<Rightarrow> nat \<Rightarrow> cell list \<Rightarrow> jsstring list \<Rightarrow> jsstring list" where
  "formulasOfRow ns rowIndex colIndex [] formulaCells = formulaCells"
| "formulasOfRow ns rowIndex colIndex (formula # rest) formulaCells =
     formulasOfRow ns rowIndex (colIndex + 1) rest
       (if isFormula formula then
          formulaCells @ [[(65 + colIndex) mod 65536] @ decimal (rowIndex + 1) @ js '': ''
                            @ cellToString ns formula]
        else formulaCells)"

fun formulasOfSheet :: "(rat \<Rightarrow> jsstring) \<Rightarrow> nat \<Rightarrow> cell list list \<Rightarrow> jsstring list \<Rightarrow> jsstring list" where
  "formulasOfSheet ns rowIndex [] formulaCells = formulaCells"
| "formulasOfSheet ns rowIndex (row # rest) formulaCells =
     formulasOfSheet ns (rowIndex + 1) rest (formulasOfRow ns rowIndex 0 row formulaCells)"

fun appendFormulas :: "jsstring list \<Rightarrow> jsstring \<Rightarrow> jsstring" where
  "appendFormulas [] context = context"
| "appendFormulas (f # fs) context = appendFormulas fs (context @ js ''  '' @ f @ NL)"

definition buildContextForLLM :: "(rat \<Rightarrow> jsstring) \<Rightarrow> WorkbookContext \<Rightarrow> exn + jsstring" where
  "buildContextForLLM ns workbook =
     (let context = js ''CURRENT EXCEL WORKBOOK STATE:'' @ NL;
          context = context @ js ''Active Sheet: '' @ DQ @ activeSheetName workbook @ DQ @ NL;
          context = context @ js ''Available Sheets: '' @ joinStrings (js '', '') (sheets workbook) @ NL @ NL
      in case activeSheetData workbook of
           None \<Rightarrow> Inr context
         | Some data \<Rightarrow>
             (let context = context @ js ''ACTIVE SHEET DATA ('' @ usedRange data @ js ''):'' @ NL;
                  context = context @ js ''Rows: '' @ decimal (rowCount data) @ js '', Columns: ''
                              @ decimal (columnCount data) @ NL @ NL;
                  preview =
                    (if length (values2d data) > 0 then
                       (let maxRows = min (length (values2d data)) 20;
                            context = context @ js ''Data Preview (first '' @ decimal maxRows @ js '' rows):'' @ NL
                        in case rowsLoop ns (values2d data) maxRows 0 context of
                             Inl e \<Rightarrow> Inl e
                           | Inr context \<Rightarrow>
                               (if length (values2d data) > maxRows then
                                  Inr (context @ js ''... and '' @ decimal (length (values2d data) - maxRows)
                                         @ js '' more rows'' @ NL)
                                else Inr context))
                     else Inr context)
              in case preview of
                   Inl e \<Rightarrow> Inl e
                 | Inr context \<Rightarrow>
                     (let formulaCells = formulasOfSheet ns 0 (formulas data) []
                      in if length formulaCells > 0 then
                           (let context = context @ NL @ js ''FORMULAS IN SHEET:'' @ NL;
                                context = appendFormulas (slice 0 20 formulaCells) context
                            in if length formulaCells > 20 then
                                 Inr (context @ js ''  ... and '' @ decimal (length formulaCells - 20)
                                        @ js '' more formulas'' @ NL)
                               else Inr context)
                         else Inr context)))"


text \<open>\<open>String.prototype.includes\<close>\<close>

fun str_includes :: "'a list \<Rightarrow> 'a list \<Rightarrow> bool" where
  "str_includes [] p = (p = [])"
| "str_includes (c # cs) p = (startsWith (c # cs) p \<or> str_includes cs p)"

text \<open>
  What the serializer is meant to print, said without loops: one line per previewed row,
  and one entry per formula cell in row-major order.
\<close>

definition rowLine :: "(rat \<Rightarrow> jsstring) \<Rightarrow> nat \<Rightarrow> cell list \<Rightarrow> jsstring" where
  "rowLine ns i row =
     js ''Row '' @ decimal (i + 1) @ js '': '' @ joinStrings (js '' | '') (map (cellToString ns) row) @ NL"

definition previewLines :: "(rat \<Rightarrow> jsstring) \<Rightarrow> cell list list \<Rightarrow> jsstring" where
  "previewLines ns rows = concat (map (\<lambda>(i, row). rowLine ns i row) (enumerate 0 rows))"

definition formulaEntry :: "(rat \<Rightarrow> jsstring) \<Rightarrow> nat \<Rightarrow> nat \<times> cell \<Rightarrow> jsstring" where
  "formulaEntry ns rowIndex = (\<lambda>(colIndex, formula).
     [(65 + colIndex) mod 65536] @ decimal (rowIndex + 1) @ js '': '' @ cellToString ns formula)"

definition formulaEntries :: "(rat \<Rightarrow> jsstring) \<Rightarrow> cell list list \<Rightarrow> jsstring list" where
  "formulaEntries ns grid =
     concat (map (\<lambda>(rowIndex, row).
                    map (formulaEntry ns rowIndex) (filter (\<lambda>(colIndex, formula). isFormula formula) (enumerate 0 row)))
                 (enumerate 0 grid))"

definition formulaLines :: "jsstring list \<Rightarrow> jsstring" where
  "formulaLines fs = concat (map (\<lambda>f. js ''  '' @ f @ NL) fs)"

lemma rowsLoop_lines:
  "maxRows \<le> length vals \<Longrightarrow>
   rowsLoop ns vals maxRows i ctx =
     Inr (ctx @ concat (map (\<lambda>k. rowLine ns k (vals ! k)) [i..<maxRows]))"
proof (induction ns vals maxRows i ctx rule: rowsLoop.induct)
  case (1 ns vals maxRows i ctx)
  show ?case
  proof (cases "i < maxRows")
    case True
    then have "i < length vals" using "1.prems" by simp
    with True "1.IH" "1.prems" show ?thesis
      by (subst rowsLoop.simps) (simp add: upt_conv_Cons rowLine_def)
  next
    case False
    then show ?thesis by (subst rowsLoop.simps) simp
  qed
qed

lemma nth_lines_enumerate:
  "m \<le> length vals \<Longrightarrow>
   map (\<lambda>k. f k (vals ! k)) [0..<m] = map (\<lambda>(k, row). f k row) (enumerate 0 (take m vals))"
  by (rule nth_equalityI) (simp_all add: nth_enumerate_eq)

lemma rowsLoop_preview:
  "rowsLoop ns vals (min (length vals) 20) 0 context = Inr (context @ previewLines ns (take 20 vals))"
proof -
  have "take (min (length vals) 20) vals = take 20 vals"
    by (simp add: min_def)
  then show ?thesis
    using nth_lines_enumerate [of "min (length vals) 20" vals "rowLine ns"]
    by (simp add: rowsLoop_lines previewLines_def)
qed

lemma formulasOfRow_entries:
  "formulasOfRow ns r c row acc =
     acc @ map (formulaEntry ns r) (filter (\<lambda>(colIndex, formula). isFormula formula) (enumerate c row))"
  by (induction row arbitrary: c acc) (simp_all add: formulaEntry_def)

lemma formulasOfSheet_entries:
  "formulasOfSheet ns r grid acc =
     acc @ concat (map (\<lambda>(rowIndex, row).
                    map (formulaEntry ns rowIndex) (filter (\<lambda>(colIndex, formula). isFormula formula) (enumerate 0 row)))
                 (enumerate r grid))"
  by (induction grid arbitrary: r acc) (simp_all add: formulasOfRow_entries)

lemma formulasOfSheet_formulaEntries:
  "formulasOfSheet ns 0 grid [] = formulaEntries ns grid"
  by (simp add: formulasOfSheet_entries formulaEntries_def)

lemma appendFormulas_lines:
  "appendFormulas fs ctx = ctx @ formulaLines fs"
  by (induction fs arbitrary: ctx) (simp_all add: formulaLines_def)

lemma slice_0_20: "slice 0 20 xs = take 20 xs"
  by (simp add: slice_def relIndex_def min_def)


definition workbookHeader :: "WorkbookContext \<Rightarrow> jsstring" where
  "workbookHeader workbook =
     js ''CURRENT EXCEL WORKBOOK STATE:'' @ NL
     @ js ''Active Sheet: '' @ DQ @ activeSheetName workbook @ DQ @ NL
     @ js ''Available Sheets: '' @ joinStrings (js '', '') (sheets workbook) @ NL @ NL"

definition sheetHeader :: "SheetData \<Rightarrow> jsstring" where
  "sheetHeader data =
     js ''ACTIVE SHEET DATA ('' @ usedRange data @ js ''):'' @ NL
     @ js ''Rows: '' @ decimal (rowCount data) @ js '', Columns: '' @ decimal (columnCount data) @ NL @ NL"

text \<open>
  C3 (amended). Whenever a sheet is active the serializer prints, after the two headers,
  a preview of at most 20 data rows (exactly the first 20 when there are more) followed,
  only when there are more than 20 rows, by the line \<open>... and N more rows\<close> with
  \<open>N\<close> the number of rows left out (5 for 25 rows); then the formula cells, at most
  the first 20 of them, followed, only when there are more than 20, by the line
  \<open>  ... and N more formulas\<close>.
\<close>

theorem buildContextForLLM_previews_20:
  assumes "activeSheetData workbook = Some data"
  shows "buildContextForLLM ns workbook =
           Inr (workbookHeader workbook @ sheetHeader data
                @ (if values2d data = [] then []
                   else js ''Data Preview (first '' @ decimal (min (length (values2d data)) 20) @ js '' rows):'' @ NL
                        @ previewLines ns (take 20 (values2d data))
                        @ (if 20 < length (values2d data)
                           then js ''... and '' @ decimal (length (values2d data) - 20) @ js '' more rows'' @ NL
                           else []))
                @ (if formulaEntries ns (formulas data) = [] then []
                   else NL @ js ''FORMULAS IN SHEET:'' @ NL
                        @ formulaLines (take 20 (formulaEntries ns (formulas data)))
                        @ (if 20 < length (formulaEntries ns (formulas data))
                           then js ''  ... and '' @ decimal (length (formulaEntries ns (formulas data)) - 20)
                                @ js '' more formulas'' @ NL
                           else [])))"
proof -
  have m: "min (length (values2d data)) 20 < length (values2d data) \<longleftrightarrow> 20 < length (values2d data)"
    by auto
  have d: "length (values2d data) - min (length (values2d data)) 20 = length (values2d data) - 20"
    by auto
  show ?thesis
    using assms
    by (simp add: buildContextForLLM_def Let_def rowsLoop_preview formulasOfSheet_formulaEntries
        appendFormulas_lines slice_0_20 workbookHeader_def sheetHeader_def m d)
qed

text \<open>A sheet of 25 one-cell rows without formulas, and the same sheet with a formula in every row.\<close>

definition data25 :: SheetData where
  "data25 = \<lparr>name = js ''S'', usedRange = js ''A1:A25'',
       values2d = replicate 25 [CellString (js ''x'')],
       formulas = replicate 25 [CellString (js ''x'')],
       rowCount = 25, columnCount = 1\<rparr>"

definition sheet25 :: WorkbookContext where
  "sheet25 = \<lparr>activeSheetName = js ''S'', sheets = [js ''S''], activeSheetData = Some data25\<rparr>"

definition out25 :: jsstring where
  "out25 = js ''CURRENT EXCEL WORKBOOK STATE:\<newline>Active Sheet: '' @ DQ @ js ''S'' @ DQ
     @ js ''\<newline>Available Sheets: S\<newline>\<newline>ACTIVE SHEET DATA (A1:A25):\<newline>Rows: 25, Columns: 1\<newline>\<newline>Data Preview (first 20 rows):\<newline>Row 1: x\<newline>Row 2: x\<newline>Row 3: x\<newline>Row 4: x\<newline>Row 5: x\<newline>Row 6: x\<newline>Row 7: x\<newline>Row 8: x\<newline>Row 9: x\<newline>Row 10: x\<newline>Row 11: x\<newline>Row 12: x\<newline>Row 13: x\<newline>Row 14: x\<newline>Row 15: x\<newline>Row 16: x\<newline>Row 17: x\<newline>Row 18: x\<newline>Row 19: x\<newline>Row 20: x\<newline>... and 5 more rows\<newline>''"

definition formulaData25 :: SheetData where
  "formulaData25 = data25\<lparr>formulas := replicate 25 [CellString (js ''=1'')]\<rparr>"

definition formulas25 :: WorkbookContext where
  "formulas25 = sheet25\<lparr>activeSheetData := Some formulaData25\<rparr>"

lemma replicate_numeral_Cons: "replicate (numeral k) x = x # replicate (pred_numeral k) x"
  by (simp add: numeral_eq_Suc)

lemmas ctx_eval = Let_def decimal.simps slice_def relIndex_def isFormula_def
  js_def NL_def DQ_def replicate_numeral_Cons

theorem buildContextForLLM_previews_20_witness:
  "activeSheetData formulas25 = Some formulaData25 \<and>
   buildContextForLLM (\<lambda>q. []) formulas25 =
     Inr (out25 @ js ''\<newline>FORMULAS IN SHEET:\<newline>  A1: =1\<newline>  A2: =1\<newline>  A3: =1\<newline>  A4: =1\<newline>  A5: =1\<newline>  A6: =1\<newline>  A7: =1\<newline>  A8: =1\<newline>  A9: =1\<newline>  A10: =1\<newline>  A11: =1\<newline>  A12: =1\<newline>  A13: =1\<newline>  A14: =1\<newline>  A15: =1\<newline>  A16: =1\<newline>  A17: =1\<newline>  A18: =1\<newline>  A19: =1\<newline>  A20: =1\<newline>  ... and 5 more formulas\<newline>'')"
proof -
  have h: "activeSheetData formulas25 = Some formulaData25"
    by (simp add: formulas25_def)
  have "buildContextForLLM (\<lambda>q. []) formulas25 =
     Inr (out25 @ js ''\<newline>FORMULAS IN SHEET:\<newline>  A1: =1\<newline>  A2: =1\<newline>  A3: =1\<newline>  A4: =1\<newline>  A5: =1\<newline>  A6: =1\<newline>  A7: =1\<newline>  A8: =1\<newline>  A9: =1\<newline>  A10: =1\<newline>  A11: =1\<newline>  A12: =1\<newline>  A13: =1\<newline>  A14: =1\<newline>  A15: =1\<newline>  A16: =1\<newline>  A17: =1\<newline>  A18: =1\<newline>  A19: =1\<newline>  A20: =1\<newline>  ... and 5 more formulas\<newline>'')"
    unfolding buildContextForLLM_previews_20 [OF h]
    by (simp add: ctx_eval out25_def sheet25_def data25_def formulas25_def formulaData25_def
        workbookHeader_def sheetHeader_def previewLines_def rowLine_def formulaEntries_def
        formulaEntry_def formulaLines_def)
  with h show ?thesis by simp
qed

text \<open>
  C3 as stated names the marker \<open>...and 5 more rows\<close>. For the sheet of 25 rows the
  serializer prints \<open>... and 5 more rows\<close>, with a space after the dots, and the text
  of the claim occurs nowhere in the output.
\<close>

theorem buildContextForLLM_marker_counterexample:
  "buildContextForLLM (\<lambda>q. []) sheet25 = Inr out25
   \<and> \<not> str_includes out25 (js ''...and 5 more rows'')
   \<and> str_includes out25 (js ''... and 5 more rows'')"
proof -
  have "buildContextForLLM (\<lambda>q. []) sheet25 = Inr out25"
    by (simp add: ctx_eval buildContextForLLM_def rowsLoop.simps out25_def sheet25_def data25_def)
  moreover have "\<not> str_includes out25 (js ''...and 5 more rows'')"
    by (simp add: out25_def js_def DQ_def)
  moreover have "str_includes out25 (js ''... and 5 more rows'')"
    by (simp add: out25_def js_def DQ_def)
  ultimately show ?thesis by blast
qed



section \<open>JavaScript values\<close>

text \<open>
  The values the program handles as \<open>any\<close>: what \<open>JSON.parse\<close> produces, plus
  \<open>undefined\<close> and the built-in methods that a property read finds on a prototype.
  An object lists its own properties in insertion order, each key once. A number is an
  IEEE double in the source; the model keeps the value it was written with, which rounds
  to the double zero, the only falsy double met here, exactly when its magnitude is at
  most \<open>2 ^ - 1075\<close>. \<open>Number.prototype.toString\<close> is the parameter \<open>ns\<close>
  wherever a number is printed.
\<close>

datatype jsval =
    JUndefined
  | JNull
  | JBool bool
  | JNum rat
  | JStr jsstring
  | JArr "jsval list"
  | JObj "(jsstring \<times> jsval) list"
  | JFunction jsstring

fun truthy :: "jsval \<Rightarrow> bool" where
  "truthy JUndefined = False"
| "truthy JNull = False"
| "truthy (JBool b) = b"
| "truthy (JNum q) = (1 / 2 ^ 1075 < \<bar>q\<bar>)"
| "truthy (JStr s) = (s \<noteq> [])"
| "truthy (JArr xs) = True"
| "truthy (JObj kvs) = True"
| "truthy (JFunction f) = True"

text \<open>\<open>a || b\<close> on values.\<close>

definition orElse :: "jsval \<Rightarrow> jsval \<Rightarrow> jsval" where
  "orElse a b = (if truthy a then a else b)"

definition isArray :: "jsval \<Rightarrow> bool" where
  "isArray v = (case v of JArr xs \<Rightarrow> True | _ \<Rightarrow> False)"

definition isStringVal :: "jsval \<Rightarrow> bool" where
  "isStringVal v = (case v of JStr s \<Rightarrow> True | _ \<Rightarrow> False)"

definition SQ :: jsstring where "SQ = [39]"

definition cannotRead :: "string \<Rightarrow> jsstring \<Rightarrow> exn" where
  "cannotRead what p =
     TypeError (js ''Cannot read properties of '' @ js what @ js '' (reading '' @ SQ @ p @ SQ @ js '')'')"

text \<open>
  The property read \<open>v.p\<close>. Reading a property of \<open>undefined\<close> or \<open>null\<close> is a
  TypeError. An object answers with its own property; of the inherited ones the model
  knows those whose names the program reads: \<open>length\<close>, \<open>Array.prototype.fill\<close> and
  \<open>values\<close>, \<open>String.prototype.bold\<close>, and a function's \<open>name\<close>.
\<close>

fun getProp :: "jsval \<Rightarrow> jsstring \<Rightarrow> exn + jsval" where
  "getProp JUndefined p = Inl (cannotRead ''undefined'' p)"
| "getProp JNull p = Inl (cannotRead ''null'' p)"
| "getProp (JObj kvs) p = Inr (case map_of kvs p of Some v \<Rightarrow> v | None \<Rightarrow> JUndefined)"
| "getProp (JArr xs) p =
     Inr (if p = js ''length'' then JNum (of_nat (length xs))
          else if p = js ''fill'' \<or> p = js ''values'' then JFunction p
          else JUndefined)"
| "getProp (JStr s) p =
     Inr (if p = js ''length'' then JNum (of_nat (length s))
          else if p = js ''bold'' then JFunction p
          else JUndefined)"
| "getProp (JFunction f) p = Inr (if p = js ''name'' then JStr f else JUndefined)"
| "getProp (JBool b) p = Inr JUndefined"
| "getProp (JNum q) p = Inr JUndefined"

text \<open>The indexed read \<open>v[i]\<close>.\<close>

fun getIndex :: "jsval \<Rightarrow> nat \<Rightarrow> exn + jsval" where
  "getIndex JUndefined i = Inl (cannotRead ''undefined'' (decimal i))"
| "getIndex JNull i = Inl (cannotRead ''null'' (decimal i))"
| "getIndex (JArr xs) i = Inr (if i < length xs then xs ! i else JUndefined)"
| "getIndex (JStr s) i = Inr (if i < length s then JStr [s ! i] else JUndefined)"
| "getIndex (JObj kvs) i = Inr (case map_of kvs (decimal i) of Some v \<Rightarrow> v | None \<Rightarrow> JUndefined)"
| "getIndex v i = Inr JUndefined"

text \<open>
  \<open>ToString\<close>, as template literals, \<open>new Error(x)\<close> and \<open>join\<close> apply it. An
  array prints its elements joined by commas, \<open>null\<close> and \<open>undefined\<close> elements as
  the empty string. A plain object prints as \<open>[object Object]\<close>, unless it has an own
  property \<open>toString\<close>: an own property of a parsed object is never callable, and
  neither is what \<open>valueOf\<close> then offers, so the conversion is a TypeError.
\<close>

fun ToString :: "(rat \<Rightarrow> jsstring) \<Rightarrow> jsval \<Rightarrow> exn + jsstring"
  and joinValues :: "(rat \<Rightarrow> jsstring) \<Rightarrow> jsstring \<Rightarrow> jsval list \<Rightarrow> exn + jsstring"
  and elementString :: "(rat \<Rightarrow> jsstring) \<Rightarrow> jsval \<Rightarrow> exn + jsstring" where
  "ToString ns JUndefined = Inr (js ''undefined'')"
| "ToString ns JNull = Inr (js ''null'')"
| "ToString ns (JBool b) = Inr (if b then js ''true'' else js ''false'')"
| "ToString ns (JNum q) = Inr (ns q)"
| "ToString ns (JStr s) = Inr s"
| "ToString ns (JArr xs) = joinValues ns (js '','') xs"
| "ToString ns (JObj kvs) =
     (if map_of kvs (js ''toString'') = None then Inr (js ''[object Object]'')
      else Inl (TypeError (js ''Cannot convert object to primitive value'')))"
| "ToString ns (JFunction f) = Inr (js ''function '' @ f @ js ''() { [native code] }'')"
| "joinValues ns sep [] = Inr []"
| "joinValues ns sep [x] = elementString ns x"
| "joinValues ns sep (x # y # ys) =
     (case elementString ns x of
        Inl e \<Rightarrow> Inl e
      | Inr a \<Rightarrow> (case joinValues ns sep (y # ys) of Inl e \<Rightarrow> Inl e | Inr b \<Rightarrow> Inr (a @ sep @ b)))"
| "elementString ns JUndefined = Inr []"
| "elementString ns JNull = Inr []"
| "elementString ns v = ToString ns v"


section \<open>The spreadsheet host\<close>

text \<open>
  Office.js hands out proxy objects: reading a property of a proxy gives another proxy
  and does nothing else; calling a method or assigning a property is a request to the
  host. A proxy is named by the path that produced it. Every request is recorded, with
  the console output, in the order the code issues it. Whether a request throws is the
  host's decision, from everything issued so far: the parameter \<open>throws\<close>.
\<close>

datatype hostobj =
    Context
  | Prop hostobj string
  | Ret hostobj string "arg list"
and arg = Val jsval | Ref hostobj

datatype event =
    Invoke hostobj string "arg list"
  | Assign hostobj string jsval
  | ConsoleLog jsstring "jsval list"
  | ConsoleWarn jsstring
  | ConsoleError jsstring exn

record platform =
  excelAvailable :: bool
  throws :: "event list \<Rightarrow> event \<Rightarrow> exn option"
  numToString :: "rat \<Rightarrow> jsstring"
  now :: nat

type_synonym 'a exec = "platform \<Rightarrow> event list \<Rightarrow> (exn + 'a) \<times> event list"

definition ret :: "'a \<Rightarrow> 'a exec" where
  "ret x = (\<lambda>p t. (Inr x, t))"

definition throw :: "exn \<Rightarrow> 'a exec" where
  "throw e = (\<lambda>p t. (Inl e, t))"

definition bind :: "'a exec \<Rightarrow> ('a \<Rightarrow> 'b exec) \<Rightarrow> 'b exec" where
  "bind m f = (\<lambda>p t. case m p t of (Inl e, t') \<Rightarrow> (Inl e, t') | (Inr x, t') \<Rightarrow> f x p t')"

definition seq :: "unit exec \<Rightarrow> 'b exec \<Rightarrow> 'b exec" where
  "seq m k = bind m (\<lambda>u. k)"

definition try_catch :: "'a exec \<Rightarrow> (exn \<Rightarrow> 'a exec) \<Rightarrow> 'a exec" where
  "try_catch m h = (\<lambda>p t. case m p t of (Inl e, t') \<Rightarrow> h e p t' | (Inr x, t') \<Rightarrow> (Inr x, t'))"

definition lift :: "exn + 'a \<Rightarrow> 'a exec" where
  "lift r = (case r of Inl e \<Rightarrow> throw e | Inr x \<Rightarrow> ret x)"

text \<open>A request to the host: recorded, then answered or thrown.\<close>

definition request :: "event \<Rightarrow> unit exec" where
  "request ev = (\<lambda>p t. case throws p t ev of Some e \<Rightarrow> (Inl e, t @ [ev]) | None \<Rightarrow> (Inr (), t @ [ev]))"

definition invoke :: "hostobj \<Rightarrow> string \<Rightarrow> arg list \<Rightarrow> hostobj exec" where
  "invoke obj m args = bind (request (Invoke obj m args)) (\<lambda>u. ret (Ret obj m args))"

definition assign :: "hostobj \<Rightarrow> string \<Rightarrow> jsval \<Rightarrow> unit exec" where
  "assign obj f v = request (Assign obj f v)"

definition emit :: "event \<Rightarrow> unit exec" where
  "emit ev = (\<lambda>p t. (Inr (), t @ [ev]))"

definition get :: "jsval \<Rightarrow> string \<Rightarrow> jsval exec" where
  "get v f = lift (getProp v (js f))"

definition toStr :: "jsval \<Rightarrow> jsstring exec" where
  "toStr v = (\<lambda>p t. (ToString (numToString p) v, t))"

definition dateNow :: "nat exec" where
  "dateNow = (\<lambda>p t. (Inr (now p), t))"


definition discard :: "'a exec \<Rightarrow> unit exec" where
  "discard m = bind m (\<lambda>x. ret ())"

section \<open>Operation executor\<close>

definition worksheets :: hostobj where
  "worksheets = Prop (Prop Context ''workbook'') ''worksheets''"

definition getRange :: "hostobj \<Rightarrow> jsval \<Rightarrow> string \<Rightarrow> hostobj exec" where
  "getRange sheet op field = bind (get op field) (\<lambda>address. invoke sheet ''getRange'' [Val address])"

definition getItem_sheet :: "jsval \<Rightarrow> hostobj exec" where
  "getItem_sheet nm = invoke worksheets ''getItem'' [Val nm]"

text \<open>The cases of the \<open>switch\<close>, in the order of the source.\<close>

definition case_setCellValue :: "hostobj \<Rightarrow> jsval \<Rightarrow> unit exec" where
  "case_setCellValue sheet op =
     bind (getRange sheet op ''address'') (\<lambda>cellScale.
     bind (get op ''value'') (\<lambda>v.
     assign cellScale ''values'' (JArr [JArr [v]])))"

definition case_setFormula :: "hostobj \<Rightarrow> jsval \<Rightarrow> unit exec" where
  "case_setFormula sheet op =
     bind (getRange sheet op ''address'') (\<lambda>cellFormula.
     bind (get op ''formula'') (\<lambda>v.
     assign cellFormula ''formulas'' (JArr [JArr [v]])))"

definition case_format :: "hostobj \<Rightarrow> jsval \<Rightarrow> unit exec" where
  "case_format sheet op =
     bind (getRange sheet op ''address'') (\<lambda>range.
     bind (get op ''format'') (\<lambda>fmt.
     bind (get fmt ''bold'') (\<lambda>bold.
     seq (if bold \<noteq> JUndefined then assign (Prop (Prop range ''format'') ''font'') ''bold'' bold else ret ())
     (bind (get fmt ''fill'') (\<lambda>fill.
     seq (if truthy fill then assign (Prop (Prop range ''format'') ''fill'') ''color'' fill else ret ())
     (bind (get fmt ''color'') (\<lambda>color.
     if truthy color then assign (Prop (Prop range ''format'') ''font'') ''color'' color else ret ())))))))"

definition case_createTable :: "hostobj \<Rightarrow> jsval \<Rightarrow> unit exec" where
  "case_createTable sheet op =
     bind (get op ''address'') (\<lambda>address.
     bind (invoke (Prop sheet ''tables'') ''add'' [Val address, Val (JBool True)]) (\<lambda>table.
     bind (get op ''name'') (\<lambda>nm.
     if truthy nm then assign table ''name'' nm else ret ())))"

definition case_createChart :: "hostobj \<Rightarrow> jsval \<Rightarrow> unit exec" where
  "case_createChart sheet op =
     bind (getRange sheet op ''address'') (\<lambda>chartSourceRange.
     bind (get op ''chartType'') (\<lambda>chartType.
     bind (invoke (Prop sheet ''charts'') ''add''
             [Val (orElse chartType (JStr (js ''ColumnClustered''))), Ref chartSourceRange, Val (JStr (js ''Auto''))]) (\<lambda>chart.
     bind (get op ''title'') (\<lambda>title.
     if truthy title then assign (Prop chart ''title'') ''text'' title else ret ()))))"

definition case_createWorksheet :: "jsval \<Rightarrow> unit exec" where
  "case_createWorksheet op =
     try_catch
       (bind (get op ''name'') (\<lambda>nm.
        bind (invoke worksheets ''add'' [Val nm]) (\<lambda>newSheet.
        bind (get op ''activate'') (\<lambda>act.
        if truthy act then discard (invoke newSheet ''activate'' []) else ret ()))))
       (\<lambda>e. bind (get op ''name'') (\<lambda>nm.
             bind (toStr nm) (\<lambda>s.
             emit (ConsoleWarn (js ''Sheet '' @ s @ js '' might already exist'')))))"

definition case_activateWorksheet :: "jsval \<Rightarrow> unit exec" where
  "case_activateWorksheet op =
     bind (get op ''name'') (\<lambda>nm.
     bind (getItem_sheet nm) (\<lambda>sheetToActivate.
     discard (invoke sheetToActivate ''activate'' [])))"

definition case_deleteWorksheet :: "jsval \<Rightarrow> unit exec" where
  "case_deleteWorksheet op =
     bind (get op ''name'') (\<lambda>nm.
     bind (getItem_sheet nm) (\<lambda>sheetToDelete.
     discard (invoke sheetToDelete ''delete'' [])))"

definition case_autoFit :: "hostobj \<Rightarrow> jsval \<Rightarrow> unit exec" where
  "case_autoFit sheet op =
     bind (get op ''address'') (\<lambda>address.
     bind (if truthy address then getRange sheet op ''address'' else invoke sheet ''getUsedRange'' []) (\<lambda>autoFitRange.
     bind (invoke autoFitRange ''getEntireColumn'' []) (\<lambda>col.
     discard (invoke (Prop col ''format'') ''autofitColumns'' []))))"

text \<open>The array literal \<open>[{ key: op.key || 0, ascending: op.ascending !== false }]\<close>.\<close>

definition sortFields :: "jsval \<Rightarrow> jsval exec" where
  "sortFields op =
     bind (get op ''key'') (\<lambda>k.
     bind (get op ''ascending'') (\<lambda>a.
     ret (JArr [JObj [(js ''key'', orElse k (JNum 0)), (js ''ascending'', JBool (a \<noteq> JBool False))]])))"

definition case_sortRange :: "hostobj \<Rightarrow> jsval \<Rightarrow> unit exec" where
  "case_sortRange sheet op =
     bind (getRange sheet op ''address'') (\<lambda>sortRange.
     bind (sortFields op) (\<lambda>fields.
     bind (get op ''matchCase'') (\<lambda>matchCase.
     bind (get op ''hasHeaders'') (\<lambda>hasHeaders.
     bind (get op ''orientation'') (\<lambda>orientation.
     discard (invoke (Prop sortRange ''sort'') ''apply''
                [Val fields, Val (orElse matchCase (JBool False)), Val (orElse hasHeaders (JBool True)),
                 Val (orElse orientation (JStr (js ''Rows'')))]))))))"

definition case_filterRange :: "hostobj \<Rightarrow> jsval \<Rightarrow> unit exec" where
  "case_filterRange sheet op =
     bind (getRange sheet op ''address'') (\<lambda>filterRange.
     discard (invoke (Prop sheet ''autoFilter'') ''apply'' [Ref filterRange]))"


fun addHierarchies :: "hostobj \<Rightarrow> string \<Rightarrow> jsval list \<Rightarrow> unit exec" where
  "addHierarchies pivotTable kind [] = ret ()"
| "addHierarchies pivotTable kind (r # rs) =
     bind (invoke (Prop pivotTable ''hierarchies'') ''getItem'' [Val r]) (\<lambda>h.
     bind (invoke (Prop pivotTable kind) ''add'' [Ref h]) (\<lambda>added.
     addHierarchies pivotTable kind rs))"

fun addDataHierarchies :: "hostobj \<Rightarrow> jsval list \<Rightarrow> unit exec" where
  "addDataHierarchies pivotTable [] = ret ()"
| "addDataHierarchies pivotTable (v # vs) =
     bind (if isStringVal v then ret v else get v ''field'') (\<lambda>fieldName.
     bind (invoke (Prop pivotTable ''hierarchies'') ''getItem'' [Val fieldName]) (\<lambda>h.
     bind (invoke (Prop pivotTable ''dataHierarchies'') ''add'' [Ref h]) (\<lambda>dataHierarchy.
     seq (if isStringVal v then ret ()
          else bind (get v ''function'') (\<lambda>f.
               if truthy f then assign dataHierarchy ''summarizeBy'' f else ret ()))
         (addDataHierarchies pivotTable vs))))"

definition forEachIfArray :: "jsval \<Rightarrow> (jsval list \<Rightarrow> unit exec) \<Rightarrow> unit exec" where
  "forEachIfArray v body = (case v of JArr xs \<Rightarrow> (if truthy v \<and> isArray v then body xs else ret ()) | _ \<Rightarrow> ret ())"

definition case_createPivotTable :: "hostobj \<Rightarrow> jsval \<Rightarrow> unit exec" where
  "case_createPivotTable sheet op =
     try_catch
       (bind (get op ''sourceSheet'') (\<lambda>srcName.
        bind (if truthy srcName then getItem_sheet srcName else ret sheet) (\<lambda>sourceSheet.
        bind (getRange sourceSheet op ''sourceAddress'') (\<lambda>sourceRange.
        bind (get op ''destinationSheet'') (\<lambda>dstName.
        bind (if truthy dstName then getItem_sheet dstName else ret sheet) (\<lambda>destSheet.
        bind (get op ''name'') (\<lambda>nm.
        bind (if truthy nm then ret nm
              else bind dateNow (\<lambda>ms. ret (JStr (js ''PivotTable_'' @ decimal ms)))) (\<lambda>pivotTableName.
        bind (get op ''destinationAddress'') (\<lambda>dstAddress.
        bind (invoke (Prop destSheet ''pivotTables'') ''add''
                [Val pivotTableName, Ref sourceRange, Val (orElse dstAddress (JStr (js ''A1'')))]) (\<lambda>pivotTable.
        seq (if truthy nm then assign pivotTable ''name'' nm else ret ())
        (bind (get op ''rows'') (\<lambda>rows.
         seq (forEachIfArray rows (addHierarchies pivotTable ''rowHierarchies''))
        (bind (get op ''columns'') (\<lambda>columns.
         seq (forEachIfArray columns (addHierarchies pivotTable ''columnHierarchies''))
        (bind (get op ''values'') (\<lambda>vals.
         forEachIfArray vals (addDataHierarchies pivotTable)))))))))))))))))
       (\<lambda>e. emit (ConsoleError (js ''Failed to create Pivot Table'') e))"

definition case_insertRows :: "hostobj \<Rightarrow> jsval \<Rightarrow> unit exec" where
  "case_insertRows sheet op =
     bind (getRange sheet op ''address'') (\<lambda>insertRowRange.
     discard (invoke insertRowRange ''insert'' [Val (JStr (js ''Down''))]))"

definition case_deleteRows :: "hostobj \<Rightarrow> jsval \<Rightarrow> unit exec" where
  "case_deleteRows sheet op =
     bind (getRange sheet op ''address'') (\<lambda>deleteRowRange.
     discard (invoke deleteRowRange ''delete'' [Val (JStr (js ''Up''))]))"

definition case_insertColumns :: "hostobj \<Rightarrow> jsval \<Rightarrow> unit exec" where
  "case_insertColumns sheet op =
     bind (getRange sheet op ''address'') (\<lambda>insertColRange.
     discard (invoke insertColRange ''insert'' [Val (JStr (js ''Right''))]))"

definition case_deleteColumns :: "hostobj \<Rightarrow> jsval \<Rightarrow> unit exec" where
  "case_deleteColumns sheet op =
     bind (getRange sheet op ''address'') (\<lambda>deleteColRange.
     discard (invoke deleteColRange ''delete'' [Val (JStr (js ''Left''))]))"

definition case_renameWorksheet :: "jsval \<Rightarrow> unit exec" where
  "case_renameWorksheet op =
     bind (get op ''name'') (\<lambda>nm.
     bind (get op ''oldName'') (\<lambda>oldName.
     bind (getItem_sheet (orElse nm oldName)) (\<lambda>sheetToRename.
     bind (get op ''newName'') (\<lambda>newName.
     assign sheetToRename ''name'' newName))))"

definition case_hideWorksheet :: "jsval \<Rightarrow> unit exec" where
  "case_hideWorksheet op =
     bind (get op ''name'') (\<lambda>nm.
     bind (getItem_sheet nm) (\<lambda>sheetToHide.
     assign sheetToHide ''visibility'' (JStr (js ''Hidden''))))"

definition case_unhideWorksheet :: "jsval \<Rightarrow> unit exec" where
  "case_unhideWorksheet op =
     bind (get op ''name'') (\<lambda>nm.
     bind (getItem_sheet nm) (\<lambda>sheetToUnhide.
     assign sheetToUnhide ''visibility'' (JStr (js ''Visible''))))"

text \<open>
  \<open>switch (op.action)\<close>: the action is compared with each label by strict equality;
  with no matching label nothing is done.
\<close>

definition switchAction :: "hostobj \<Rightarrow> jsval \<Rightarrow> unit exec" where
  "switchAction sheet op =
     bind (get op ''action'') (\<lambda>action.
          if action = JStr (js ''setCellValue'') then case_setCellValue sheet op
     else if action = JStr (js ''setFormula'') then case_setFormula sheet op
     else if action = JStr (js ''format'') then case_format sheet op
     else if action = JStr (js ''createTable'') then case_createTable sheet op
     else if action = JStr (js ''createChart'') then case_createChart sheet op
     else if action = JStr (js ''createWorksheet'') then case_createWorksheet op
     else if action = JStr (js ''activateWorksheet'') then case_activateWorksheet op
     else if action = JStr (js ''deleteWorksheet'') then case_deleteWorksheet op
     else if action = JStr (js ''autoFit'') then case_autoFit sheet op
     else if action = JStr (js ''sortRange'') then case_sortRange sheet op
     else if action = JStr (js ''filterRange'') then case_filterRange sheet op
     else if action = JStr (js ''createPivotTable'') then case_createPivotTable sheet op
     else if action = JStr (js ''insertRows'') then case_insertRows sheet op
     else if action = JStr (js ''deleteRows'') then case_deleteRows sheet op
     else if action = JStr (js ''insertColumns'') then case_insertColumns sheet op
     else if action = JStr (js ''deleteColumns'') then case_deleteColumns sheet op
     else if action = JStr (js ''renameWorksheet'') then case_renameWorksheet op
     else if action = JStr (js ''hideWorksheet'') then case_hideWorksheet op
     else if action = JStr (js ''unhideWorksheet'') then case_unhideWorksheet op
     else ret ())"

text \<open>
  The \<open>catch\<close> of one operation builds its message from \<open>op.action\<close> and
  \<open>op.address\<close> before it logs.
\<close>

definition logFailure :: "jsval \<Rightarrow> exn \<Rightarrow> unit exec" where
  "logFailure op e =
     bind (get op ''action'') (\<lambda>action.
     bind (toStr action) (\<lambda>a.
     bind (get op ''address'') (\<lambda>address.
     bind (toStr address) (\<lambda>b.
     emit (ConsoleError (js ''Failed to execute operation '' @ a @ js '' on '' @ b) e)))))"

text \<open>
  The repository holds an earlier \<open>executeOperations\<close> too (in
  \<open>src/services/excelService.ts\<close>): the same function with the first five cases
  only.
\<close>

definition switchAction_basic :: "hostobj \<Rightarrow> jsval \<Rightarrow> unit exec" where
  "switchAction_basic sheet op =
     bind (get op ''action'') (\<lambda>action.
          if action = JStr (js ''setCellValue'') then case_setCellValue sheet op
     else if action = JStr (js ''setFormula'') then case_setFormula sheet op
     else if action = JStr (js ''format'') then case_format sheet op
     else if action = JStr (js ''createTable'') then case_createTable sheet op
     else if action = JStr (js ''createChart'') then case_createChart sheet op
     else ret ())"

text \<open>
  The body of the loop, the loop and the function around it are the same in both; they
  take the \<open>switch\<close> as \<open>sw\<close>. One operation runs inside its own \<open>try\<close>.
\<close>

definition tryOperation :: "(hostobj \<Rightarrow> jsval \<Rightarrow> unit exec) \<Rightarrow> hostobj \<Rightarrow> jsval \<Rightarrow> unit exec" where
  "tryOperation sw sheet op = try_catch (sw sheet op) (logFailure op)"

fun forOperations :: "(hostobj \<Rightarrow> jsval \<Rightarrow> unit exec) \<Rightarrow> hostobj \<Rightarrow> jsval list \<Rightarrow> unit exec" where
  "forOperations sw sheet [] = ret ()"
| "forOperations sw sheet (op # rest) = seq (tryOperation sw sheet op) (forOperations sw sheet rest)"

definition runOperations :: "(hostobj \<Rightarrow> jsval \<Rightarrow> unit exec) \<Rightarrow> jsval list \<Rightarrow> unit exec" where
  "runOperations sw operations =
     (\<lambda>p. if \<not> excelAvailable p
          then emit (ConsoleLog (js ''Simulating Excel operations:'') [JArr operations]) p
          else bind (invoke worksheets ''getActiveWorksheet'' []) (\<lambda>sheet.
               seq (forOperations sw sheet operations)
                   (discard (invoke Context ''sync'' []))) p)"

definition executeOperations :: "jsval list \<Rightarrow> unit exec" where
  "executeOperations = runOperations switchAction"

definition executeOperations_basic :: "jsval list \<Rightarrow> unit exec" where
  "executeOperations_basic = runOperations switchAction_basic"


section \<open>Properties of the executor\<close>

definition isSync :: "event \<Rightarrow> bool" where
  "isSync ev = (case ev of Invoke obj m args \<Rightarrow> m = ''sync'' | _ \<Rightarrow> False)"

definition liveHost :: platform where
  "liveHost = \<lparr>excelAvailable = True, throws = (\<lambda>t ev. None), numToString = (\<lambda>q. []), now = 0\<rparr>"

definition setA1 :: jsval where
  "setA1 = JObj [(js ''action'', JStr (js ''setCellValue'')), (js ''address'', JStr (js ''A1'')),
                 (js ''value'', JStr (js ''5''))]"

lemmas exec_defs = ret_def throw_def bind_def seq_def try_catch_def lift_def request_def invoke_def
  assign_def emit_def get_def toStr_def dateNow_def discard_def


text \<open>A computation is \<open>quiet\<close> when it only adds events, none of them a synchronization.\<close>

definition quiet :: "'a exec \<Rightarrow> bool" where
  "quiet m = (\<forall>p t. \<exists>evs. snd (m p t) = t @ evs \<and> (\<forall>ev \<in> set evs. \<not> isSync ev))"

lemma quiet_ret: "quiet (ret x)"
  by (simp add: quiet_def ret_def)

lemma quiet_throw: "quiet (throw e)"
  by (simp add: quiet_def throw_def)

lemma quiet_bind:
  assumes "quiet m" and "\<And>x. quiet (f x)"
  shows "quiet (bind m f)"
  unfolding quiet_def
proof (intro allI)
  fix p t
  obtain r t' where mp: "m p t = (r, t')"
    by (cases "m p t")
  obtain evs where m: "t' = t @ evs" "\<forall>ev \<in> set evs. \<not> isSync ev"
    using assms(1) mp unfolding quiet_def by (metis snd_conv)
  show "\<exists>evs. snd (bind m f p t) = t @ evs \<and> (\<forall>ev \<in> set evs. \<not> isSync ev)"
  proof (cases r)
    case (Inl e)
    then have "bind m f p t = (Inl e, t @ evs)"
      using mp m(1) by (simp add: bind_def)
    then show ?thesis using m(2) by auto
  next
    case (Inr x)
    obtain evs' where f: "snd (f x p (t @ evs)) = (t @ evs) @ evs'" "\<forall>ev \<in> set evs'. \<not> isSync ev"
      using assms(2) [of x] unfolding quiet_def by blast
    have "snd (bind m f p t) = t @ (evs @ evs')"
      using Inr mp m(1) f(1) by (simp add: bind_def)
    then show ?thesis using m(2) f(2) by (metis Un_iff set_append)
  qed
qed

lemma quiet_seq: "quiet m \<Longrightarrow> quiet k \<Longrightarrow> quiet (seq m k)"
  by (simp add: seq_def quiet_bind)

lemma quiet_try_catch:
  assumes "quiet m" and "\<And>e. quiet (h e)"
  shows "quiet (try_catch m h)"
  unfolding quiet_def
proof (intro allI)
  fix p t
  obtain r t' where mp: "m p t = (r, t')"
    by (cases "m p t")
  obtain evs where m: "t' = t @ evs" "\<forall>ev \<in> set evs. \<not> isSync ev"
    using assms(1) mp unfolding quiet_def by (metis snd_conv)
  show "\<exists>evs. snd (try_catch m h p t) = t @ evs \<and> (\<forall>ev \<in> set evs. \<not> isSync ev)"
  proof (cases r)
    case (Inr x)
    then have "try_catch m h p t = (Inr x, t @ evs)"
      using mp m(1) by (simp add: try_catch_def)
    then show ?thesis using m(2) by auto
  next
    case (Inl e)
    obtain evs' where h: "snd (h e p (t @ evs)) = (t @ evs) @ evs'" "\<forall>ev \<in> set evs'. \<not> isSync ev"
      using assms(2) [of e] unfolding quiet_def by blast
    have "snd (try_catch m h p t) = t @ (evs @ evs')"
      using Inl mp m(1) h(1) by (simp add: try_catch_def)
    then show ?thesis using m(2) h(2) by (metis Un_iff set_append)
  qed
qed

lemma quiet_request: "\<not> isSync ev \<Longrightarrow> quiet (request ev)"
  by (auto simp: quiet_def request_def split: option.splits)

lemma quiet_invoke: "m \<noteq> ''sync'' \<Longrightarrow> quiet (invoke obj m args)"
  by (simp add: invoke_def quiet_bind quiet_request quiet_ret isSync_def)

lemma quiet_assign: "quiet (assign obj f v)"
  by (simp add: assign_def quiet_request isSync_def)

lemma quiet_emit: "\<not> isSync ev \<Longrightarrow> quiet (emit ev)"
  by (simp add: quiet_def emit_def)

lemma quiet_lift: "quiet (lift r)"
  by (cases r) (simp_all add: lift_def quiet_ret quiet_throw)

lemma quiet_get: "quiet (get v f)"
  by (simp add: get_def quiet_lift)

lemma quiet_toStr: "quiet (toStr v)"
  by (simp add: quiet_def toStr_def)

lemma quiet_dateNow: "quiet dateNow"
  by (simp add: quiet_def dateNow_def)

lemma quiet_discard: "quiet m \<Longrightarrow> quiet (discard m)"
  by (simp add: discard_def quiet_bind quiet_ret)

lemma quiet_if: "quiet a \<Longrightarrow> quiet b \<Longrightarrow> quiet (if c then a else b)"
  by simp

lemmas quiet_intros = quiet_ret quiet_throw quiet_bind quiet_seq quiet_try_catch quiet_invoke
  quiet_assign quiet_emit quiet_get quiet_toStr quiet_dateNow quiet_discard quiet_if

lemma quiet_getRange: "quiet (getRange sheet op f)"
  by (auto simp: getRange_def intro!: quiet_intros)

lemma quiet_getItem_sheet: "quiet (getItem_sheet nm)"
  by (auto simp: getItem_sheet_def intro!: quiet_intros)

lemma quiet_addHierarchies: "quiet (addHierarchies pt kind xs)"
  by (induction xs) (auto intro!: quiet_intros)

lemma quiet_addDataHierarchies: "quiet (addDataHierarchies pt xs)"
  by (induction xs) (auto intro!: quiet_intros)

lemma quiet_forEachIfArray: "(\<And>xs. quiet (body xs)) \<Longrightarrow> quiet (forEachIfArray v body)"
  by (cases v) (auto simp: forEachIfArray_def intro!: quiet_intros)

lemmas quiet_more = quiet_getRange quiet_getItem_sheet quiet_addHierarchies quiet_addDataHierarchies
  quiet_forEachIfArray

lemmas case_defs = case_setCellValue_def case_setFormula_def case_format_def case_createTable_def
  case_createChart_def case_createWorksheet_def case_activateWorksheet_def case_deleteWorksheet_def
  case_autoFit_def case_sortRange_def case_filterRange_def case_createPivotTable_def
  case_insertRows_def case_deleteRows_def case_insertColumns_def case_deleteColumns_def
  case_renameWorksheet_def case_hideWorksheet_def case_unhideWorksheet_def sortFields_def

lemma quiet_switchAction: "quiet (switchAction sheet op)"
  unfolding switchAction_def case_defs
  by (auto simp: isSync_def intro!: quiet_intros quiet_more)

lemma quiet_logFailure: "quiet (logFailure op e)"
  unfolding logFailure_def by (auto simp: isSync_def intro!: quiet_intros)

lemma quiet_switchAction_basic: "quiet (switchAction_basic sheet op)"
  unfolding switchAction_basic_def case_defs
  by (auto simp: isSync_def intro!: quiet_intros quiet_more)

lemma quiet_tryOperation: "(\<And>sheet op. quiet (sw sheet op)) \<Longrightarrow> quiet (tryOperation sw sheet op)"
  by (simp add: tryOperation_def quiet_try_catch quiet_logFailure)

lemma quiet_forOperations: "(\<And>sheet op. quiet (sw sheet op)) \<Longrightarrow> quiet (forOperations sw sheet ops)"
  by (induction ops) (simp_all add: quiet_ret quiet_seq quiet_tryOperation)


text \<open>
  An operation can be logged when the message of the \<open>catch\<close> can be built: the
  operation is neither \<open>null\<close> nor \<open>undefined\<close>, and its action and address print.
\<close>

definition printable :: "(rat \<Rightarrow> jsstring) \<Rightarrow> jsval \<Rightarrow> bool" where
  "printable ns v = (case ToString ns v of Inl e \<Rightarrow> False | Inr s \<Rightarrow> True)"

definition loggable :: "(rat \<Rightarrow> jsstring) \<Rightarrow> jsval \<Rightarrow> bool" where
  "loggable ns op =
     (case getProp op (js ''action'') of
        Inl e \<Rightarrow> False
      | Inr a \<Rightarrow> printable ns a \<and>
          (case getProp op (js ''address'') of Inl e \<Rightarrow> False | Inr b \<Rightarrow> printable ns b))"

lemma logFailure_total:
  "loggable (numToString p) op \<Longrightarrow> fst (logFailure op e p t) = Inr ()"
  by (auto simp: loggable_def printable_def logFailure_def exec_defs split: sum.splits)

lemma tryOperation_total:
  assumes "loggable (numToString p) op"
  shows "fst (tryOperation sw sheet op p t) = Inr ()"
proof (cases "sw sheet op p t")
  case (Pair r t')
  show ?thesis
  proof (cases r)
    case (Inl e)
    then show ?thesis
      using Pair logFailure_total [OF assms, of e t'] by (simp add: tryOperation_def try_catch_def)
  next
    case (Inr u)
    then show ?thesis using Pair by (simp add: tryOperation_def try_catch_def)
  qed
qed

text \<open>
  With operations that can all be logged the loop runs every operation's scope, each
  from the events its predecessors left, and nothing escapes it.
\<close>

lemma forOperations_runs_every_scope:
  "\<forall>op \<in> set ops. loggable (numToString p) op \<Longrightarrow>
   forOperations sw sheet ops p t = (Inr (), foldl (\<lambda>t op. snd (tryOperation sw sheet op p t)) t ops)"
proof (induction ops arbitrary: t)
  case Nil
  then show ?case by (simp add: ret_def)
next
  case (Cons op ops)
  have "fst (tryOperation sw sheet op p t) = Inr ()"
    using Cons.prems by (simp add: tryOperation_total)
  then obtain t' where step: "tryOperation sw sheet op p t = (Inr (), t')"
    by (metis prod.collapse)
  show ?case
    using Cons.IH [of t'] Cons.prems step
    by (simp add: seq_def bind_def)
qed

text \<open>
  Then a live host sees the request for the active sheet, the requests of the
  operations, none of them a synchronization, and one synchronization at the end; the
  caller sees an exception only if that synchronization throws.
\<close>

lemma runOperations_one_sync_at_end:
  assumes sw: "\<And>sheet op. quiet (sw sheet op)"
    and live: "excelAvailable p"
    and sheet: "throws p t (Invoke worksheets ''getActiveWorksheet'' []) = None"
    and ops: "\<forall>op \<in> set ops. loggable (numToString p) op"
  shows "\<exists>evs. snd (runOperations sw ops p t)
               = t @ [Invoke worksheets ''getActiveWorksheet'' []] @ evs @ [Invoke Context ''sync'' []]
             \<and> (\<forall>ev \<in> set evs. \<not> isSync ev)
             \<and> fst (runOperations sw ops p t)
                 = (case throws p (t @ [Invoke worksheets ''getActiveWorksheet'' []] @ evs) (Invoke Context ''sync'' []) of
                      None \<Rightarrow> Inr () | Some e \<Rightarrow> Inl e)"
proof -
  let ?sheet = "Ret worksheets ''getActiveWorksheet'' []"
  let ?t1 = "t @ [Invoke worksheets ''getActiveWorksheet'' []]"
  obtain evs where evs: "snd (forOperations sw ?sheet ops p ?t1) = ?t1 @ evs" "\<forall>ev \<in> set evs. \<not> isSync ev"
    using quiet_forOperations [of sw ?sheet ops, OF sw] unfolding quiet_def by blast
  have "fst (forOperations sw ?sheet ops p ?t1) = Inr ()"
    using forOperations_runs_every_scope [OF ops] by simp
  then have loop: "forOperations sw ?sheet ops p ?t1 = (Inr (), ?t1 @ evs)"
    using evs(1) by (metis prod.collapse)
  have "runOperations sw ops p t =
          (case throws p (?t1 @ evs) (Invoke Context ''sync'' []) of None \<Rightarrow> Inr () | Some e \<Rightarrow> Inl e,
           ?t1 @ evs @ [Invoke Context ''sync'' []])"
    using live sheet loop
    by (simp add: runOperations_def exec_defs split: option.splits)
  then show ?thesis using evs(2) by auto
qed


text \<open>
  C6. A \<open>sortRange\<close> operation without a \<open>key\<close> is sorted by column index 0,
  and one without \<open>ascending\<close> is sorted ascending: that is what the request to the
  host says, whenever the range of the operation could be fetched.
\<close>

theorem sortRange_defaults:
  assumes act: "getProp op (js ''action'') = Inr (JStr (js ''sortRange''))"
    and addr: "getProp op (js ''address'') = Inr address"
    and range: "throws p t (Invoke sheet ''getRange'' [Val address]) = None"
  shows "(getProp op (js ''key'') = Inr JUndefined \<longrightarrow>
            (\<exists>asc others rest. snd (tryOperation switchAction sheet op p t) =
               t @ [Invoke sheet ''getRange'' [Val address],
                    Invoke (Prop (Ret sheet ''getRange'' [Val address]) ''sort'') ''apply''
                      (Val (JArr [JObj [(js ''key'', JNum 0), (js ''ascending'', asc)]]) # others)]
                 @ rest))
       \<and> (getProp op (js ''ascending'') = Inr JUndefined \<longrightarrow>
            (\<exists>k others rest. snd (tryOperation switchAction sheet op p t) =
               t @ [Invoke sheet ''getRange'' [Val address],
                    Invoke (Prop (Ret sheet ''getRange'' [Val address]) ''sort'') ''apply''
                      (Val (JArr [JObj [(js ''key'', k), (js ''ascending'', JBool True)]]) # others)]
                 @ rest))"
proof -
  obtain k where k: "getProp op (js ''key'') = Inr k"
    using act by (cases op) auto
  obtain a where a: "getProp op (js ''ascending'') = Inr a"
    using act by (cases op) auto
  obtain mc where mc: "getProp op (js ''matchCase'') = Inr mc"
    using act by (cases op) auto
  obtain hh where hh: "getProp op (js ''hasHeaders'') = Inr hh"
    using act by (cases op) auto
  obtain orient where orient: "getProp op (js ''orientation'') = Inr orient"
    using act by (cases op) auto
  let ?range = "Ret sheet ''getRange'' [Val address]"
  let ?others = "[Val (orElse mc (JBool False)), Val (orElse hh (JBool True)), Val (orElse orient (JStr (js ''Rows'')))]"
  let ?sort = "Invoke (Prop ?range ''sort'') ''apply''
                 (Val (JArr [JObj [(js ''key'', orElse k (JNum 0)), (js ''ascending'', JBool (a \<noteq> JBool False))]]) # ?others)"
  have sw: "switchAction sheet op p t =
              (case throws p (t @ [Invoke sheet ''getRange'' [Val address]]) ?sort of
                 None \<Rightarrow> Inr () | Some e \<Rightarrow> Inl e,
               t @ [Invoke sheet ''getRange'' [Val address], ?sort])"
    using act addr range k a mc hh orient
    by (simp add: switchAction_def case_sortRange_def sortFields_def getRange_def exec_defs js_def
        split: option.splits)
  have "\<exists>rest. snd (tryOperation switchAction sheet op p t) = t @ [Invoke sheet ''getRange'' [Val address], ?sort] @ rest"
  proof (cases "throws p (t @ [Invoke sheet ''getRange'' [Val address]]) ?sort")
    case None
    then show ?thesis using sw by (simp add: tryOperation_def try_catch_def)
  next
    case (Some e)
    obtain evs where "snd (logFailure op e p (t @ [Invoke sheet ''getRange'' [Val address], ?sort]))
                        = (t @ [Invoke sheet ''getRange'' [Val address], ?sort]) @ evs"
      using quiet_logFailure [of op e] unfolding quiet_def by blast
    then show ?thesis using sw Some by (simp add: tryOperation_def try_catch_def)
  qed
  then obtain rest where tr: "snd (tryOperation switchAction sheet op p t) = t @ [Invoke sheet ''getRange'' [Val address], ?sort] @ rest"
    by blast
  show ?thesis
  proof (intro conjI impI)
    assume "getProp op (js ''key'') = Inr JUndefined"
    then have "orElse k (JNum 0) = JNum 0" using k by (simp add: orElse_def)
    then show "\<exists>asc others rest. snd (tryOperation switchAction sheet op p t) =
               t @ [Invoke sheet ''getRange'' [Val address],
                    Invoke (Prop (Ret sheet ''getRange'' [Val address]) ''sort'') ''apply''
                      (Val (JArr [JObj [(js ''key'', JNum 0), (js ''ascending'', asc)]]) # others)]
                 @ rest"
      using tr by auto
  next
    assume "getProp op (js ''ascending'') = Inr JUndefined"
    then have "a \<noteq> JBool False" using a by auto
    then show "\<exists>k others rest. snd (tryOperation switchAction sheet op p t) =
               t @ [Invoke sheet ''getRange'' [Val address],
                    Invoke (Prop (Ret sheet ''getRange'' [Val address]) ''sort'') ''apply''
                      (Val (JArr [JObj [(js ''key'', k), (js ''ascending'', JBool True)]]) # others)]
                 @ rest"
      using tr by auto
  qed
qed


lemma executeOperations_one_sync_when_loggable:
  assumes "excelAvailable p"
    and "throws p t (Invoke worksheets ''getActiveWorksheet'' []) = None"
    and "\<forall>op \<in> set ops. loggable (numToString p) op"
  shows "\<exists>evs. snd (executeOperations ops p t)
               = t @ [Invoke worksheets ''getActiveWorksheet'' []] @ evs @ [Invoke Context ''sync'' []]
             \<and> (\<forall>ev \<in> set evs. \<not> isSync ev)
             \<and> fst (executeOperations ops p t)
                 = (case throws p (t @ [Invoke worksheets ''getActiveWorksheet'' []] @ evs) (Invoke Context ''sync'' []) of
                      None \<Rightarrow> Inr () | Some e \<Rightarrow> Inl e)"
  unfolding executeOperations_def
  using assms by (intro runOperations_one_sync_at_end quiet_switchAction)

definition activeSheet :: hostobj where
  "activeSheet = Ret worksheets ''getActiveWorksheet'' []"

definition sortA1B10 :: jsval where
  "sortA1B10 = JObj [(js ''action'', JStr (js ''sortRange'')), (js ''address'', JStr (js ''A1:B10''))]"

theorem sortRange_defaults_witness:
  "getProp sortA1B10 (js ''action'') = Inr (JStr (js ''sortRange''))
   \<and> getProp sortA1B10 (js ''address'') = Inr (JStr (js ''A1:B10''))
   \<and> throws liveHost [] (Invoke activeSheet ''getRange'' [Val (JStr (js ''A1:B10''))]) = None
   \<and> getProp sortA1B10 (js ''key'') = Inr JUndefined
   \<and> getProp sortA1B10 (js ''ascending'') = Inr JUndefined
   \<and> (\<exists>asc others rest. snd (tryOperation switchAction activeSheet sortA1B10 liveHost []) =
               [] @ [Invoke activeSheet ''getRange'' [Val (JStr (js ''A1:B10''))],
                    Invoke (Prop (Ret activeSheet ''getRange'' [Val (JStr (js ''A1:B10''))]) ''sort'') ''apply''
                      (Val (JArr [JObj [(js ''key'', JNum 0), (js ''ascending'', asc)]]) # others)]
                 @ rest)
   \<and> (\<exists>k others rest. snd (tryOperation switchAction activeSheet sortA1B10 liveHost []) =
               [] @ [Invoke activeSheet ''getRange'' [Val (JStr (js ''A1:B10''))],
                    Invoke (Prop (Ret activeSheet ''getRange'' [Val (JStr (js ''A1:B10''))]) ''sort'') ''apply''
                      (Val (JArr [JObj [(js ''key'', k), (js ''ascending'', JBool True)]]) # others)]
                 @ rest)"
proof -
  have a: "getProp sortA1B10 (js ''action'') = Inr (JStr (js ''sortRange''))"
    by (simp add: sortA1B10_def js_def)
  have b: "getProp sortA1B10 (js ''address'') = Inr (JStr (js ''A1:B10''))"
    by (simp add: sortA1B10_def js_def)
  have c: "throws liveHost [] (Invoke activeSheet ''getRange'' [Val (JStr (js ''A1:B10''))]) = None"
    by (simp add: liveHost_def)
  have d: "getProp sortA1B10 (js ''key'') = Inr JUndefined"
    by (simp add: sortA1B10_def js_def)
  have e: "getProp sortA1B10 (js ''ascending'') = Inr JUndefined"
    by (simp add: sortA1B10_def js_def)
  from sortRange_defaults [OF a b c] a b c d e show ?thesis
    by simp
qed

text \<open>
  C2 (the code departs from it). The first operation is \<open>null\<close>: reading its action
  throws inside the \<open>try\<close>, the \<open>catch\<close> reads the action again to build its message
  and throws in turn, and that exception leaves the loop. The operation after it is never
  attempted and the caller receives the TypeError. Both versions of the function behave
  so. Without the \<open>null\<close> the same operation is applied and committed.
\<close>

theorem executeOperations_null_operation_escapes:
  "executeOperations [JNull, setA1] liveHost [] =
     (Inl (cannotRead ''null'' (js ''action'')), [Invoke worksheets ''getActiveWorksheet'' []])
   \<and> executeOperations_basic [JNull, setA1] liveHost [] =
     (Inl (cannotRead ''null'' (js ''action'')), [Invoke worksheets ''getActiveWorksheet'' []])
   \<and> executeOperations [setA1] liveHost [] =
     (Inr (), [Invoke worksheets ''getActiveWorksheet'' [],
               Invoke activeSheet ''getRange'' [Val (JStr (js ''A1''))],
               Assign (Ret activeSheet ''getRange'' [Val (JStr (js ''A1''))]) ''values'' (JArr [JArr [JStr (js ''5'')]]),
               Invoke Context ''sync'' []])"
  by (simp add: executeOperations_def executeOperations_basic_def runOperations_def tryOperation_def
      switchAction_def switchAction_basic_def logFailure_def exec_defs liveHost_def setA1_def
      case_setCellValue_def getRange_def activeSheet_def js_def)

text \<open>
  C7 (the code departs from it). With a \<open>null\<close> in the list the exception that leaves
  the loop also skips the synchronization: the host receives no \<open>sync\<close> at all.
\<close>

theorem executeOperations_null_operation_never_syncs:
  "fst (executeOperations [setA1, JNull] liveHost []) = Inl (cannotRead ''null'' (js ''action''))
   \<and> filter isSync (snd (executeOperations [setA1, JNull] liveHost [])) = []
   \<and> filter isSync (snd (executeOperations [setA1] liveHost [])) = [Invoke Context ''sync'' []]"
  by (simp add: executeOperations_def runOperations_def tryOperation_def
      switchAction_def logFailure_def exec_defs liveHost_def setA1_def
      case_setCellValue_def getRange_def js_def isSync_def)




section \<open>Base64: \<open>btoa\<close> and \<open>atob\<close>\<close>

text \<open>
  The two built-ins, after the HTML standard. \<open>btoa\<close> throws when a code unit is
  above 255 and otherwise encodes the code units as bytes. \<open>atob\<close> is the forgiving
  decoder: it drops ASCII whitespace, drops one or two trailing \<open>=\<close> when the length is
  a multiple of four, and throws when the length is then 1 modulo 4 or a character is
  outside the alphabet.
\<close>

definition b64char :: "nat \<Rightarrow> jschar" where
  "b64char i =
     (if i < 26 then 65 + i
      else if i < 52 then 97 + (i - 26)
      else if i < 62 then 48 + (i - 52)
      else if i = 62 then 43
      else 47)"

definition b64index :: "jschar \<Rightarrow> nat option" where
  "b64index c =
     (if 65 \<le> c \<and> c \<le> 90 then Some (c - 65)
      else if 97 \<le> c \<and> c \<le> 122 then Some (c - 97 + 26)
      else if 48 \<le> c \<and> c \<le> 57 then Some (c - 48 + 52)
      else if c = 43 then Some 62
      else if c = 47 then Some 63
      else None)"

fun base64_encode :: "nat list \<Rightarrow> jsstring" where
  "base64_encode [] = []"
| "base64_encode [a] = [b64char (a div 4), b64char ((a mod 4) * 16), 61, 61]"
| "base64_encode [a, b] =
     [b64char (a div 4), b64char ((a mod 4) * 16 + b div 16), b64char ((b mod 16) * 4), 61]"
| "base64_encode (a # b # c # rest) =
     [b64char (a div 4), b64char ((a mod 4) * 16 + b div 16),
      b64char ((b mod 16) * 4 + c div 64), b64char (c mod 64)] @ base64_encode rest"

definition btoa :: "jsstring \<Rightarrow> exn + jsstring" where
  "btoa s = (if list_ex (\<lambda>c. 255 < c) s then Inl InvalidCharacterError else Inr (base64_encode s))"

definition isAsciiWhitespace :: "jschar \<Rightarrow> bool" where
  "isAsciiWhitespace c = (c = 9 \<or> c = 10 \<or> c = 12 \<or> c = 13 \<or> c = 32)"

definition endsWith :: "'a list \<Rightarrow> 'a list \<Rightarrow> bool" where
  "endsWith s p = (length p \<le> length s \<and> drop (length s - length p) s = p)"

definition stripPadding :: "jsstring \<Rightarrow> jsstring" where
  "stripPadding d =
     (if length d mod 4 = 0 then
        (if endsWith d [61, 61] then take (length d - 2) d
         else if endsWith d [61] then take (length d - 1) d
         else d)
      else d)"

fun decode_sextets :: "nat list \<Rightarrow> nat list" where
  "decode_sextets (a # b # c # d # rest) =
     [a * 4 + b div 16, (b mod 16) * 16 + c div 4, (c mod 4) * 64 + d] @ decode_sextets rest"
| "decode_sextets [a, b, c] = [a * 4 + b div 16, (b mod 16) * 16 + c div 4]"
| "decode_sextets [a, b] = [a * 4 + b div 16]"
| "decode_sextets rest = []"

definition atob :: "jsstring \<Rightarrow> exn + jsstring" where
  "atob s =
     (let d = stripPadding (filter (\<lambda>c. \<not> isAsciiWhitespace c) s)
      in if length d mod 4 = 1 then Inl InvalidCharacterError
         else (case those (map b64index d) of
                 None \<Rightarrow> Inl InvalidCharacterError
               | Some sextets \<Rightarrow> Inr (decode_sextets sextets)))"


lemma base64_examples:
  "btoa (js ''ab'') = Inr (js ''YWI='')"
  "atob (js ''YWI='') = Inr (js ''ab'')"
  "atob (js '' Y Q'') = Inr (js ''a'')"
  "atob (js ''Y'') = Inl InvalidCharacterError"
  by (simp_all add: btoa_def atob_def js_def b64char_def b64index_def stripPadding_def endsWith_def
      isAsciiWhitespace_def)

text \<open>The sextets of the encoding, and the padding, said apart.\<close>

fun sextets_of :: "nat list \<Rightarrow> nat list" where
  "sextets_of [] = []"
| "sextets_of [a] = [a div 4, (a mod 4) * 16]"
| "sextets_of [a, b] = [a div 4, (a mod 4) * 16 + b div 16, (b mod 16) * 4]"
| "sextets_of (a # b # c # rest) =
     [a div 4, (a mod 4) * 16 + b div 16, (b mod 16) * 4 + c div 64, c mod 64] @ sextets_of rest"

fun padding_of :: "nat list \<Rightarrow> jsstring" where
  "padding_of [] = []"
| "padding_of [a] = [61, 61]"
| "padding_of [a, b] = [61]"
| "padding_of (a # b # c # rest) = padding_of rest"

lemma base64_encode_split:
  "base64_encode s = map b64char (sextets_of s) @ padding_of s"
  by (induction s rule: base64_encode.induct) simp_all

lemma sextets_of_bound:
  "\<forall>c \<in> set s. c \<le> 255 \<Longrightarrow> \<forall>x \<in> set (sextets_of s). x < 64"
proof (induction s rule: sextets_of.induct)
  case (4 a b c rest)
  then have "a < 256" "b < 256" "c < 256" "\<forall>x \<in> set (sextets_of rest). x < 64"
    by auto
  moreover have "a div 4 < 64" "(a mod 4) * 16 + b div 16 < 64" "(b mod 16) * 4 + c div 64 < 64" "c mod 64 < 64"
    using \<open>a < 256\<close> \<open>b < 256\<close> \<open>c < 256\<close> by arith+
  ultimately show ?case by auto
next
  case (3 a b)
  then have "a < 256" "b < 256" by auto
  then have "a div 4 < 64" "(a mod 4) * 16 + b div 16 < 64" "(b mod 16) * 4 < 64"
    by arith+
  then show ?case by auto
next
  case (2 a)
  then have "a < 256" by auto
  then have "a div 4 < 64" "(a mod 4) * 16 < 64" by arith+
  then show ?case by auto
qed simp

lemma b64index_b64char: "i < 64 \<Longrightarrow> b64index (b64char i) = Some i"
  by (auto simp: b64index_def b64char_def)

lemma b64char_not_pad: "i < 64 \<Longrightarrow> b64char i \<noteq> 61"
  by (auto simp: b64char_def)

lemma b64char_not_ws: "i < 64 \<Longrightarrow> \<not> isAsciiWhitespace (b64char i)"
  by (auto simp: b64char_def isAsciiWhitespace_def)

lemma padding_of_cases: "padding_of s = [] \<or> padding_of s = [61] \<or> padding_of s = [61, 61]"
  by (induction s rule: padding_of.induct) simp_all

lemma length_encoded_mod4: "(length (sextets_of s) + length (padding_of s)) mod 4 = 0"
  by (induction s rule: sextets_of.induct) simp_all

lemma length_sextets_mod4: "length (sextets_of s) mod 4 \<noteq> 1"
  by (induction s rule: sextets_of.induct) simp_all

lemma div_pack: "x < n \<Longrightarrow> (k * n + x) div n = (k::nat)"
  by simp

lemma mod_pack: "x < n \<Longrightarrow> (k * n + x) mod n = (x::nat)"
  by simp

lemma decode_sextets_of:
  "\<forall>c \<in> set s. c \<le> 255 \<Longrightarrow> decode_sextets (sextets_of s) = s"
proof (induction s rule: sextets_of.induct)
  case (4 a b c rest)
  then have "b < 256" "c < 256" and rest: "decode_sextets (sextets_of rest) = rest"
    by auto
  then have "b div 16 < 16" "c div 64 < 4"
    by simp_all
  then show ?case using rest by (simp add: div_pack mod_pack)
next
  case (3 a b)
  then have "b < 256" by auto
  then have "b div 16 < 16" by simp
  then show ?case by (simp add: div_pack mod_pack)
next
  case (2 a)
  then show ?case by simp
qed simp

lemma those_map_b64index:
  "\<forall>x \<in> set xs. x < 64 \<Longrightarrow> those (map b64index (map b64char xs)) = Some xs"
  by (induction xs) (simp_all add: b64index_b64char)

lemma endsWith_iff: "endsWith s p \<longleftrightarrow> (\<exists>xs. s = xs @ p)"
proof
  assume "endsWith s p"
  then have "s = take (length s - length p) s @ p"
    unfolding endsWith_def by (metis append_take_drop_id)
  then show "\<exists>xs. s = xs @ p" ..
next
  assume "\<exists>xs. s = xs @ p"
  then show "endsWith s p" by (auto simp: endsWith_def)
qed

lemma stripPadding_encoded:
  assumes "\<forall>x \<in> set xs. x < 64" and "pad = [] \<or> pad = [61] \<or> pad = [61, 61]"
    and "(length xs + length pad) mod 4 = 0"
  shows "stripPadding (map b64char xs @ pad) = map b64char xs"
proof -
  have nopad: "\<not> endsWith (map b64char xs) [61]"
  proof
    assume "endsWith (map b64char xs) [61]"
    then obtain ys where ys: "map b64char xs = ys @ [61]"
      unfolding endsWith_iff by blast
    then have "xs \<noteq> []" by auto
    then have "last (map b64char xs) = b64char (last xs)" "last xs \<in> set xs"
      by (simp_all add: last_map)
    then show False
      using ys assms(1) b64char_not_pad [of "last xs"] by auto
  qed
  have nopad2: "\<not> endsWith (map b64char xs) [61, 61]"
  proof
    assume "endsWith (map b64char xs) [61, 61]"
    then obtain ys where "map b64char xs = ys @ [61, 61]"
      unfolding endsWith_iff by blast
    then have "map b64char xs = (ys @ [61]) @ [61]" by simp
    then have "endsWith (map b64char xs) [61]"
      unfolding endsWith_iff by blast
    then show False using nopad by simp
  qed
  consider "pad = []" | "pad = [61]" | "pad = [61, 61]" using assms(2) by blast
  then show ?thesis
  proof cases
    case 1
    then show ?thesis using nopad nopad2 by (simp add: stripPadding_def)
  next
    case 2
    have "\<not> endsWith (map b64char xs @ [61]) [61, 61]"
    proof
      assume "endsWith (map b64char xs @ [61]) [61, 61]"
      then obtain ys where "map b64char xs @ [61] = ys @ [61, 61]"
        unfolding endsWith_iff by blast
      then have "map b64char xs @ [61] = (ys @ [61]) @ [61]" by simp
      then have "map b64char xs = ys @ [61]" by (simp only: append1_eq_conv)
      then have "endsWith (map b64char xs) [61]"
        unfolding endsWith_iff by blast
      then show False using nopad by simp
    qed
    moreover have "endsWith (map b64char xs @ [61]) [61]"
      unfolding endsWith_iff by blast
    ultimately show ?thesis
      using 2 assms(3) by (simp add: stripPadding_def)
  next
    case 3
    have "endsWith (map b64char xs @ [61, 61]) [61, 61]"
      unfolding endsWith_iff by blast
    then show ?thesis
      using 3 assms(3) by (simp add: stripPadding_def)
  qed
qed

lemma atob_base64_encode:
  assumes "\<forall>c \<in> set s. c \<le> 255"
  shows "atob (base64_encode s) = Inr s"
proof -
  let ?xs = "sextets_of s"
  have small: "\<forall>x \<in> set ?xs. x < 64"
    using assms by (rule sextets_of_bound)
  have "\<forall>c \<in> set (padding_of s). \<not> isAsciiWhitespace c"
    using padding_of_cases [of s] by (auto simp: isAsciiWhitespace_def)
  then have f: "filter (\<lambda>c. \<not> isAsciiWhitespace c) (base64_encode s) = base64_encode s"
    using small by (auto simp: base64_encode_split b64char_not_ws filter_id_conv)
  have st: "stripPadding (base64_encode s) = map b64char ?xs"
    unfolding base64_encode_split
    using small padding_of_cases length_encoded_mod4 by (rule stripPadding_encoded)
  show ?thesis
    using length_sextets_mod4 [of s] those_map_b64index [OF small] decode_sextets_of [OF assms]
    by (simp add: atob_def f st)
qed




text \<open>
  \<open>saveApiKey\<close> stores the key base64-encoded; whatever \<open>btoa\<close> or the store
  throws is logged. \<open>getApiKey\<close> answers \<open>null\<close> when nothing, or the empty string,
  is stored, and when \<open>atob\<close> throws.
\<close>

definition saveApiKey :: "quota \<Rightarrow> jsstring \<Rightarrow> env \<Rightarrow> env" where
  "saveApiKey fits key w =
     (case btoa key of
        Inl e \<Rightarrow> console_error ''Failed to save API key:'' e w
      | Inr encoded \<Rightarrow>
          (case setItem fits KEY_API_KEY encoded (store w) of
             Inl e \<Rightarrow> console_error ''Failed to save API key:'' e w
           | Inr ls \<Rightarrow> w\<lparr>store := ls\<rparr>))"

definition getApiKey :: "env \<Rightarrow> jsstring option \<times> env" where
  "getApiKey w =
     (case getItem KEY_API_KEY (store w) of
        None \<Rightarrow> (None, w)
      | Some encoded \<Rightarrow>
          (if encoded = [] then (None, w)
           else (case atob encoded of
                   Inl e \<Rightarrow> (None, console_error ''Failed to get API key:'' e w)
                 | Inr key \<Rightarrow> (Some key, w))))"

definition clearApiKey :: "env \<Rightarrow> env" where
  "clearApiKey w = w\<lparr>store := removeItem KEY_API_KEY (store w)\<rparr>"

definition hasApiKey :: "env \<Rightarrow> bool" where
  "hasApiKey w = (case getItem KEY_API_KEY (store w) of None \<Rightarrow> False | Some encoded \<Rightarrow> encoded \<noteq> [])"

definition saveProvider :: "quota \<Rightarrow> jsstring \<Rightarrow> env \<Rightarrow> exn + env" where
  "saveProvider fits provider w =
     (case setItem fits KEY_PROVIDER provider (store w) of Inl e \<Rightarrow> Inl e | Inr ls \<Rightarrow> Inr (w\<lparr>store := ls\<rparr>))"

definition storedOr :: "jsstring option \<Rightarrow> jsstring \<Rightarrow> jsstring" where
  "storedOr item dflt = (case item of None \<Rightarrow> dflt | Some s \<Rightarrow> if s = [] then dflt else s)"

definition getProvider :: "env \<Rightarrow> jsstring" where
  "getProvider w = storedOr (getItem KEY_PROVIDER (store w)) (js ''openrouter'')"

definition saveModel :: "quota \<Rightarrow> jsstring \<Rightarrow> env \<Rightarrow> exn + env" where
  "saveModel fits model w =
     (case setItem fits KEY_MODEL model (store w) of Inl e \<Rightarrow> Inl e | Inr ls \<Rightarrow> Inr (w\<lparr>store := ls\<rparr>))"

definition getModel :: "env \<Rightarrow> jsstring" where
  "getModel w = storedOr (getItem KEY_MODEL (store w)) (js ''meta-llama/llama-3.1-8b-instruct:free'')"

record Settings =
  apiKey :: "jsstring option"
  provider :: jsstring
  model :: jsstring

definition getSettings :: "env \<Rightarrow> Settings \<times> env" where
  "getSettings w =
     (case getApiKey w of
        (key, w') \<Rightarrow> (\<lparr>apiKey = key, provider = getProvider w', model = getModel w'\<rparr>, w'))"

lemma length_base64_encode_le: "length s \<le> length (base64_encode s)"
  by (induction s rule: base64_encode.induct) auto

lemma length_base64_encode: "s \<noteq> [] \<Longrightarrow> length s < length (base64_encode s)"
proof (cases s rule: base64_encode.cases)
  case (4 a b c rest)
  then show ?thesis using length_base64_encode_le [of rest] by simp
qed simp_all

text \<open>
  C10 (amended). For every non-empty key of Latin-1 characters that the store accepts,
  \<open>getApiKey\<close> after \<open>saveApiKey\<close> returns the key; what is stored is its base64
  encoding, which differs from the key.
\<close>

theorem saveApiKey_getApiKey_roundtrip:
  assumes "key \<noteq> []" and "\<forall>c \<in> set key. c \<le> 255"
    and "fits (store w) KEY_API_KEY (base64_encode key)"
  shows "fst (getApiKey (saveApiKey fits key w)) = Some key
       \<and> store (saveApiKey fits key w) KEY_API_KEY = Some (base64_encode key)
       \<and> base64_encode key \<noteq> key"
proof -
  have enc: "btoa key = Inr (base64_encode key)"
    using assms(2) by (auto simp: btoa_def list_ex_iff)
  have saved: "saveApiKey fits key w = w\<lparr>store := (store w)(KEY_API_KEY \<mapsto> base64_encode key)\<rparr>"
    using assms(3) by (simp add: saveApiKey_def enc setItem_def)
  have ne: "base64_encode key \<noteq> []"
    using length_base64_encode [OF assms(1)] by auto
  have "fst (getApiKey (saveApiKey fits key w)) = Some key"
    using ne atob_base64_encode [OF assms(2)] by (simp add: saved getApiKey_def getItem_def)
  moreover have "base64_encode key \<noteq> key"
    using length_base64_encode [OF assms(1)] by auto
  ultimately show ?thesis by (simp add: saved)
qed

definition emptyEnv :: env where
  "emptyEnv = \<lparr>store = Map.empty, console = []\<rparr>"

theorem saveApiKey_getApiKey_roundtrip_witness:
  "js ''sk-or-v1-abc'' \<noteq> [] \<and> list_all (\<lambda>c. c \<le> 255) (js ''sk-or-v1-abc'')
   \<and> fst (getApiKey (saveApiKey (\<lambda>ls k v. True) (js ''sk-or-v1-abc'') emptyEnv)) = Some (js ''sk-or-v1-abc'')
   \<and> store (saveApiKey (\<lambda>ls k v. True) (js ''sk-or-v1-abc'') emptyEnv) KEY_API_KEY = Some (js ''c2stb3ItdjEtYWJj'')
   \<and> js ''c2stb3ItdjEtYWJj'' \<noteq> js ''sk-or-v1-abc''"
proof -
  have a: "js ''sk-or-v1-abc'' \<noteq> []" by (simp add: js_def)
  have b: "\<forall>c \<in> set (js ''sk-or-v1-abc''). c \<le> 255" by (simp add: js_def)
  have e: "base64_encode (js ''sk-or-v1-abc'') = js ''c2stb3ItdjEtYWJj''"
    by (simp add: js_def b64char_def)
  from saveApiKey_getApiKey_roundtrip [of "js ''sk-or-v1-abc''" "\<lambda>ls k v. True" emptyEnv, OF a b] a b
  show ?thesis by (simp add: e list_all_iff)
qed

text \<open>
  C10 as stated fails for the empty key, which is made of Latin-1 characters only: it is
  stored as the empty string, its own encoding, and read back as \<open>null\<close>. It also fails
  when the store refuses the write, which \<open>saveApiKey\<close> only logs.
\<close>

theorem saveApiKey_empty_key_counterexample:
  "fst (getApiKey (saveApiKey (\<lambda>ls k v. True) [] emptyEnv)) = None
   \<and> store (saveApiKey (\<lambda>ls k v. True) [] emptyEnv) KEY_API_KEY = Some []
   \<and> fst (getApiKey (saveApiKey (\<lambda>ls k v. False) (js ''k'') emptyEnv)) = None"
  by (simp add: saveApiKey_def getApiKey_def btoa_def setItem_def getItem_def emptyEnv_def
      console_error_def js_def)




section \<open>\<open>JSON.parse\<close>\<close>

text \<open>
  The built-in parser, after ECMA-404: a lexer and a pushdown automaton over its tokens.
  A number keeps the value its literal denotes (the source rounds it to a double); a
  repeated key keeps its first position and its last value. \<open>None\<close> stands for the
  SyntaxError.
\<close>

datatype token =
    TLBrace | TRBrace | TLBracket | TRBracket | TColon | TComma
  | TString jsstring | TNumber rat | TTrue | TFalse | TNull

definition isJsonWhitespace :: "jschar \<Rightarrow> bool" where
  "isJsonWhitespace c = (c = 32 \<or> c = 9 \<or> c = 10 \<or> c = 13)"

definition isDigit :: "jschar \<Rightarrow> bool" where
  "isDigit c = (48 \<le> c \<and> c \<le> 57)"

definition hexValue :: "jschar \<Rightarrow> nat option" where
  "hexValue c =
     (if 48 \<le> c \<and> c \<le> 57 then Some (c - 48)
      else if 97 \<le> c \<and> c \<le> 102 then Some (c - 87)
      else if 65 \<le> c \<and> c \<le> 70 then Some (c - 55)
      else None)"

text \<open>The character after a backslash, other than \<open>u\<close>.\<close>

definition unescape :: "jschar \<Rightarrow> jschar option" where
  "unescape e =
     (if e = 34 then Some 34
      else if e = 92 then Some 92
      else if e = 47 then Some 47
      else if e = 98 then Some 8
      else if e = 102 then Some 12
      else if e = 110 then Some 10
      else if e = 114 then Some 13
      else if e = 116 then Some 9
      else None)"

definition consOpt :: "'a \<Rightarrow> ('a list \<times> 'b) option \<Rightarrow> ('a list \<times> 'b) option" where
  "consOpt x r = (case r of None \<Rightarrow> None | Some (xs, rest) \<Rightarrow> Some (x # xs, rest))"

text \<open>
  The inside of a string literal, from after the opening quote to the closing one. The
  state says whether a backslash, or part of a \<open>\u\<close> escape, has just been read.
\<close>

datatype strstate = Plain | Escaped | Hex nat nat

fun lexString :: "strstate \<Rightarrow> jsstring \<Rightarrow> (jsstring \<times> jsstring) option" where
  "lexString st [] = None"
| "lexString Plain (c # cs) =
     (if c = 34 then Some ([], cs)
      else if c = 92 then lexString Escaped cs
      else if c < 32 then None
      else consOpt c (lexString Plain cs))"
| "lexString Escaped (e # cs) =
     (if e = 117 then lexString (Hex 4 0) cs
      else (case unescape e of None \<Rightarrow> None | Some u \<Rightarrow> consOpt u (lexString Plain cs)))"
| "lexString (Hex n acc) (h # cs) =
     (case hexValue h of
        None \<Rightarrow> None
      | Some v \<Rightarrow>
          (if n \<le> 1 then consOpt (acc * 16 + v) (lexString Plain cs)
           else lexString (Hex (n - 1) (acc * 16 + v)) cs))"

definition digitsValue :: "jsstring \<Rightarrow> nat" where
  "digitsValue ds = foldl (\<lambda>n c. 10 * n + (c - 48)) 0 ds"

text \<open>
  A number literal: an optional minus, \<open>0\<close> or a digit string without leading zero, an
  optional fraction and an optional exponent, each with at least one digit.
\<close>

definition lexInt :: "jsstring \<Rightarrow> (jsstring \<times> jsstring) option" where
  "lexInt s =
     (case s of
        [] \<Rightarrow> None
      | c # cs \<Rightarrow>
          (if c = 48 then Some ([48], cs)
           else if isDigit c then Some (takeWhile isDigit s, dropWhile isDigit s)
           else None))"

definition lexFrac :: "jsstring \<Rightarrow> (jsstring \<times> jsstring) option" where
  "lexFrac s =
     (case s of
        c # cs \<Rightarrow>
          (if c = 46 then
             (if takeWhile isDigit cs = [] then None
              else Some (takeWhile isDigit cs, dropWhile isDigit cs))
           else Some ([], s))
      | [] \<Rightarrow> Some ([], s))"

definition lexExp :: "jsstring \<Rightarrow> (int \<times> jsstring) option" where
  "lexExp s =
     (case s of
        c # cs \<Rightarrow>
          (if c = 101 \<or> c = 69 then
             (let (neg, ds) = (case cs of
                                 d # r \<Rightarrow> if d = 45 then (True, r) else if d = 43 then (False, r) else (False, cs)
                               | [] \<Rightarrow> (False, cs))
              in if takeWhile isDigit ds = [] then None
                 else Some ((if neg then - 1 else 1) * int (digitsValue (takeWhile isDigit ds)),
                            dropWhile isDigit ds))
           else Some (0, s))
      | [] \<Rightarrow> Some (0, s))"

definition scale10 :: "rat \<Rightarrow> int \<Rightarrow> rat" where
  "scale10 q e = (if 0 \<le> e then q * 10 ^ nat e else q / 10 ^ nat (- e))"

definition lexSign :: "jsstring \<Rightarrow> bool \<times> jsstring" where
  "lexSign s = (case s of c # cs \<Rightarrow> if c = 45 then (True, cs) else (False, s) | [] \<Rightarrow> (False, s))"

definition numberValue :: "bool \<Rightarrow> jsstring \<Rightarrow> jsstring \<Rightarrow> int \<Rightarrow> rat" where
  "numberValue neg ip fp e =
     (if neg then - 1 else 1) * scale10 (of_nat (digitsValue ip) + of_nat (digitsValue fp) / 10 ^ length fp) e"

definition lexNumber :: "jsstring \<Rightarrow> (rat \<times> jsstring) option" where
  "lexNumber s =
     (case lexSign s of
        (neg, s1) \<Rightarrow>
          (case lexInt s1 of
             None \<Rightarrow> None
           | Some (ip, s2) \<Rightarrow>
               (case lexFrac s2 of
                  None \<Rightarrow> None
                | Some (fp, s3) \<Rightarrow>
                    (case lexExp s3 of
                       None \<Rightarrow> None
                     | Some (e, s4) \<Rightarrow> Some (numberValue neg ip fp e, s4)))))"

lemma consOpt_Some:
  "consOpt x r = Some (xs, rest) \<longleftrightarrow> (\<exists>ys. r = Some (ys, rest) \<and> xs = x # ys)"
  by (auto simp: consOpt_def split: option.splits)

lemma lexString_shorter: "lexString st cs = Some (s, rest) \<Longrightarrow> length rest < length cs"
proof (induction cs arbitrary: st s)
  case Nil
  then show ?case by simp
next
  case (Cons c cs)
  show ?case
  proof (cases st)
    case Plain
    then show ?thesis
      using Cons.prems Cons.IH [of Escaped s] Cons.IH [of Plain]
      by (auto simp: consOpt_Some less_Suc_eq split: if_splits)
  next
    case Escaped
    then show ?thesis
      using Cons.prems Cons.IH [of "Hex 4 0" s] Cons.IH [of Plain]
      by (auto simp: consOpt_Some less_Suc_eq split: if_splits option.splits)
  next
    case (Hex n acc)
    then show ?thesis
      using Cons.prems Cons.IH [of Plain] Cons.IH [of "Hex (n - 1) (acc * 16 + v)" s for v]
      by (auto simp: consOpt_Some less_Suc_eq split: if_splits option.splits)
  qed
qed


lemma lexInt_shorter:
  assumes "lexInt s = Some (ip, rest)"
  shows "length rest < length s"
proof (cases s)
  case Nil
  then show ?thesis using assms by (simp add: lexInt_def)
next
  case (Cons c cs)
  have "length (dropWhile isDigit cs) \<le> length cs"
    by (rule length_dropWhile_le)
  then show ?thesis
    using assms Cons by (auto simp: lexInt_def split: if_splits)
qed

lemma lexFrac_shorter:
  assumes "lexFrac s = Some (fp, rest)"
  shows "length rest \<le> length s"
proof (cases s)
  case Nil
  then show ?thesis using assms by (simp add: lexFrac_def)
next
  case (Cons c cs)
  have "length (dropWhile isDigit cs) \<le> length cs"
    by (rule length_dropWhile_le)
  then show ?thesis
    using assms Cons by (auto simp: lexFrac_def split: if_splits)
qed

lemma lexExp_shorter:
  assumes "lexExp s = Some (e, rest)"
  shows "length rest \<le> length s"
proof (cases s)
  case Nil
  then show ?thesis using assms by (simp add: lexExp_def)
next
  case (Cons c cs)
  note s = Cons
  have d: "length (dropWhile isDigit xs) \<le> length xs" for xs
    by (rule length_dropWhile_le)
  show ?thesis
  proof (cases cs)
    case Nil
    then show ?thesis using assms s by (auto simp: lexExp_def split: if_splits)
  next
    case (Cons d' r)
    then show ?thesis
      using assms s d [of r] d [of "d' # r"]
      by (auto simp: lexExp_def Let_def split: if_splits)
  qed
qed

lemma lexNumber_shorter:
  assumes "lexNumber (c # cs) = Some (q, rest)"
  shows "length rest < length (c # cs)"
proof -
  obtain neg s1 where sg: "lexSign (c # cs) = (neg, s1)"
    by (cases "lexSign (c # cs)")
  then have l1: "length s1 \<le> length (c # cs)"
    by (auto simp: lexSign_def split: if_splits)
  obtain ip s2 where i: "lexInt s1 = Some (ip, s2)"
    using assms sg by (cases "lexInt s1") (auto simp: lexNumber_def)
  obtain fp s3 where f: "lexFrac s2 = Some (fp, s3)"
    using assms sg i by (cases "lexFrac s2") (auto simp: lexNumber_def)
  obtain e s4 where x: "lexExp s3 = Some (e, s4)"
    using assms sg i f by (cases "lexExp s3") (auto simp: lexNumber_def)
  have "s4 = rest"
    using assms sg i f x by (simp add: lexNumber_def)
  then show ?thesis
    using l1 lexInt_shorter [OF i] lexFrac_shorter [OF f] lexExp_shorter [OF x]
    by simp
qed

definition consTok :: "token \<Rightarrow> token list option \<Rightarrow> token list option" where
  "consTok t r = (case r of None \<Rightarrow> None | Some ts \<Rightarrow> Some (t # ts))"

function lex :: "jsstring \<Rightarrow> token list option" where
  "lex [] = Some []"
| "lex (c # cs) =
     (if isJsonWhitespace c then lex cs
      else if c = 123 then consTok TLBrace (lex cs)
      else if c = 125 then consTok TRBrace (lex cs)
      else if c = 91 then consTok TLBracket (lex cs)
      else if c = 93 then consTok TRBracket (lex cs)
      else if c = 58 then consTok TColon (lex cs)
      else if c = 44 then consTok TComma (lex cs)
      else if c = 34 then
        (case lexString Plain cs of None \<Rightarrow> None | Some (s, rest) \<Rightarrow> consTok (TString s) (lex rest))
      else if c = 45 \<or> isDigit c then
        (case lexNumber (c # cs) of None \<Rightarrow> None | Some (q, rest) \<Rightarrow> consTok (TNumber q) (lex rest))
      else if startsWith (c # cs) (js ''true'') then consTok TTrue (lex (drop 4 (c # cs)))
      else if startsWith (c # cs) (js ''false'') then consTok TFalse (lex (drop 5 (c # cs)))
      else if startsWith (c # cs) (js ''null'') then consTok TNull (lex (drop 4 (c # cs)))
      else None)"
  by pat_completeness auto
termination
  by (relation "measure length") (auto dest: lexString_shorter lexNumber_shorter)

declare lex.simps [simp del]



text \<open>The automaton: a stack of the arrays and objects under construction, and what may come next.\<close>

datatype frame =
    InArray "jsval list"
  | InObject "(jsstring \<times> jsval) list"
  | InField "(jsstring \<times> jsval) list" jsstring

datatype pstate =
    Value | ValueOrClose | Key | KeyOrClose | Colon jsstring | AfterElement | AfterMember | Done jsval

fun setProp :: "(jsstring \<times> jsval) list \<Rightarrow> jsstring \<Rightarrow> jsval \<Rightarrow> (jsstring \<times> jsval) list" where
  "setProp [] k v = [(k, v)]"
| "setProp ((k', v') # props) k v = (if k' = k then (k, v) # props else (k', v') # setProp props k v)"

fun scalar :: "token \<Rightarrow> jsval option" where
  "scalar (TString s) = Some (JStr s)"
| "scalar (TNumber q) = Some (JNum q)"
| "scalar TTrue = Some (JBool True)"
| "scalar TFalse = Some (JBool False)"
| "scalar TNull = Some JNull"
| "scalar t = None"

fun complete :: "jsval \<Rightarrow> frame list \<Rightarrow> (pstate \<times> frame list) option" where
  "complete v [] = Some (Done v, [])"
| "complete v (InArray elems # st) = Some (AfterElement, InArray (elems @ [v]) # st)"
| "complete v (InField props k # st) = Some (AfterMember, InObject (setProp props k v) # st)"
| "complete v (InObject props # st) = None"

fun closeArray :: "frame list \<Rightarrow> (pstate \<times> frame list) option" where
  "closeArray (InArray elems # st) = complete (JArr elems) st"
| "closeArray st = None"

fun closeObject :: "frame list \<Rightarrow> (pstate \<times> frame list) option" where
  "closeObject (InObject props # st) = complete (JObj props) st"
| "closeObject st = None"

fun startValue :: "token \<Rightarrow> frame list \<Rightarrow> (pstate \<times> frame list) option" where
  "startValue TLBracket stack = Some (ValueOrClose, InArray [] # stack)"
| "startValue TLBrace stack = Some (KeyOrClose, InObject [] # stack)"
| "startValue tok stack = (case scalar tok of None \<Rightarrow> None | Some v \<Rightarrow> complete v stack)"

fun step :: "pstate \<Rightarrow> frame list \<Rightarrow> token \<Rightarrow> (pstate \<times> frame list) option" where
  "step Value stack tok = startValue tok stack"
| "step ValueOrClose stack tok = (if tok = TRBracket then closeArray stack else startValue tok stack)"
| "step Key stack tok = (case tok of TString k \<Rightarrow> Some (Colon k, stack) | _ \<Rightarrow> None)"
| "step KeyOrClose stack tok =
     (case tok of TString k \<Rightarrow> Some (Colon k, stack) | TRBrace \<Rightarrow> closeObject stack | _ \<Rightarrow> None)"
| "step (Colon k) stack tok =
     (if tok = TColon
      then (case stack of InObject props # st \<Rightarrow> Some (Value, InField props k # st) | _ \<Rightarrow> None)
      else None)"
| "step AfterElement stack tok =
     (case tok of TComma \<Rightarrow> Some (Value, stack) | TRBracket \<Rightarrow> closeArray stack | _ \<Rightarrow> None)"
| "step AfterMember stack tok =
     (case tok of TComma \<Rightarrow> Some (Key, stack) | TRBrace \<Rightarrow> closeObject stack | _ \<Rightarrow> None)"
| "step (Done v) stack tok = None"

fun run :: "pstate \<Rightarrow> frame list \<Rightarrow> token list \<Rightarrow> jsval option" where
  "run state stack [] = (case state of Done v \<Rightarrow> Some v | _ \<Rightarrow> None)"
| "run state stack (tok # toks) =
     (case step state stack tok of None \<Rightarrow> None | Some (state', stack') \<Rightarrow> run state' stack' toks)"

definition JSON_parse :: "jsstring \<Rightarrow> jsval option" where
  "JSON_parse s = (case lex s of None \<Rightarrow> None | Some toks \<Rightarrow> run Value [] toks)"


lemmas json_eval = JSON_parse_def lex.simps isJsonWhitespace_def isDigit_def consTok_def consOpt_def
  lexNumber_def lexSign_def lexInt_def lexFrac_def lexExp_def numberValue_def scale10_def digitsValue_def
  unescape_def hexValue_def js_def

lemma JSON_parse_examples:
  \<open>JSON_parse (js ''null'') = Some JNull\<close>
  \<open>JSON_parse (js ''{"operations": [null, 12.5e1, -0, true, "aA"] , "a":{}, "a":[]}'')
     = Some (JObj [(js ''operations'', JArr [JNull, JNum 125, JNum 0, JBool True, JStr [97, 65]]), (js ''a'', JArr [])])\<close>
  \<open>JSON_parse (js ''{"operations": [}'') = None\<close>
  \<open>JSON_parse (js ''[1,]'') = None\<close>
  \<open>JSON_parse (js ''01'') = None\<close>
  \<open>JSON_parse [] = None\<close>
  \<open>JSON_parse (js ''1.'') = None\<close>
  \<open>JSON_parse (js ''[1 2]'') = None\<close>
  \<open>JSON_parse (js '' [ ] '') = Some (JArr [])\<close>
  by (simp_all add: json_eval)



section \<open>LLM service\<close>

text \<open>
  The network is the parameter \<open>fetch\<close>: it answers a request with a response or
  rejects. Each adapter sends one request; the requests sent are returned with the
  result. The two system prompts of the repository are long constants that nothing
  below depends on: the prompt is the parameter \<open>systemPrompt\<close>.
\<close>

datatype role = System | User | Assistant

record ChatMessage =
  role :: role
  content :: jsstring

datatype payload =
    OpenRouterBody jsstring "ChatMessage list" bool
  | GeminiBody jsstring bool
  | HuggingFaceBody jsstring

record request =
  url :: jsstring
  bearer :: "jsstring option"
  payload :: payload

record response =
  status :: nat
  body :: jsstring

record network =
  fetch :: "request \<Rightarrow> exn + response"
  numberToString :: "rat \<Rightarrow> jsstring"
  systemPrompt :: jsstring

record LLMResponse =
  responseText :: jsval
  toolCalls :: "jsval list option"

type_synonym 'a sent = "(exn + 'a) \<times> request list"

definition ok :: "response \<Rightarrow> bool" where
  "ok r = (200 \<le> status r \<and> status r \<le> 299)"

definition bindE :: "exn + 'a \<Rightarrow> ('a \<Rightarrow> exn + 'b) \<Rightarrow> exn + 'b" where
  "bindE r f = (case r of Inl e \<Rightarrow> Inl e | Inr x \<Rightarrow> f x)"

text \<open>\<open>await response.json()\<close>: rejects when the body is not JSON.\<close>

definition json :: "response \<Rightarrow> exn + jsval" where
  "json r = (case JSON_parse (body r) of None \<Rightarrow> Inl SyntaxError | Some v \<Rightarrow> Inr v)"

text \<open>\<open>await response.json().catch(() => ({}))\<close>\<close>

definition jsonOrEmpty :: "response \<Rightarrow> jsval" where
  "jsonOrEmpty r = (case json r of Inl e \<Rightarrow> JObj [] | Inr v \<Rightarrow> v)"

text \<open>\<open>new Error(v)\<close>: the message is \<open>v\<close> converted to a string.\<close>

definition newError :: "network \<Rightarrow> jsval \<Rightarrow> exn" where
  "newError net v = (case ToString (numberToString net) v of Inl e \<Rightarrow> e | Inr s \<Rightarrow> Error s)"

text \<open>The optional chain \<open>v?.p\<close>.\<close>

definition getOptional :: "jsval \<Rightarrow> jsstring \<Rightarrow> exn + jsval" where
  "getOptional v p = (if v = JNull \<or> v = JUndefined then Inr JUndefined else getProp v p)"

definition genericError :: "string \<Rightarrow> response \<Rightarrow> jsval" where
  "genericError label r = JStr (js label @ js '' API error: '' @ decimal (status r))"

text \<open>
  What the OpenRouter and the Gemini adapter throw for a response that is not ok:
  \<open>throw new Error(error.error?.message || `<provider> API error: ${response.status}`)\<close>.
  Evaluating the argument can throw itself.
\<close>

definition apiError :: "network \<Rightarrow> string \<Rightarrow> response \<Rightarrow> exn" where
  "apiError net label r =
     (case bindE (getProp (jsonOrEmpty r) (js ''error'')) (\<lambda>err. getOptional err (js ''message'')) of
        Inl e \<Rightarrow> e
      | Inr message \<Rightarrow> newError net (orElse message (genericError label r)))"

text \<open>The HuggingFace adapter: \<open>throw new Error(error.error || `HuggingFace API error: ...`)\<close>.\<close>

definition apiError_hf :: "network \<Rightarrow> response \<Rightarrow> exn" where
  "apiError_hf net r =
     (case getProp (jsonOrEmpty r) (js ''error'') of
        Inl e \<Rightarrow> e
      | Inr err \<Rightarrow> newError net (orElse err (genericError ''HuggingFace'' r)))"

fun mapE :: "('a \<Rightarrow> exn + 'b) \<Rightarrow> 'a list \<Rightarrow> exn + 'b list" where
  "mapE f [] = Inr []"
| "mapE f (x # xs) = bindE (f x) (\<lambda>y. bindE (mapE f xs) (\<lambda>ys. Inr (y # ys)))"

definition parseArguments :: "network \<Rightarrow> jsval \<Rightarrow> exn + jsval" where
  "parseArguments net a =
     bindE (ToString (numberToString net) a) (\<lambda>s.
       case JSON_parse s of None \<Rightarrow> Inl SyntaxError | Some v \<Rightarrow> Inr v)"

definition toolCallOf :: "network \<Rightarrow> jsval \<Rightarrow> exn + jsval" where
  "toolCallOf net tc =
     bindE (getProp tc (js ''function'')) (\<lambda>f.
     bindE (getProp f (js ''name'')) (\<lambda>nm.
     bindE (getProp tc (js ''function'')) (\<lambda>f'.
     bindE (getProp f' (js ''arguments'')) (\<lambda>a.
     bindE (parseArguments net a) (\<lambda>parsed.
     Inr (JObj [(js ''name'', nm), (js ''arguments'', parsed)]))))))"

text \<open>\<open>message.tool_calls ? message.tool_calls.map(...) : undefined\<close>\<close>

definition mapToolCalls :: "network \<Rightarrow> jsval \<Rightarrow> exn + jsval list option" where
  "mapToolCalls net tcs =
     (if truthy tcs then
        (case tcs of
           JArr xs \<Rightarrow> bindE (mapE (toolCallOf net) xs) (\<lambda>ys. Inr (Some ys))
         | _ \<Rightarrow> Inl (TypeError (js ''message.tool_calls.map is not a function'')))
      else Inr None)"

definition openRouterMessage :: "jsval \<Rightarrow> exn + jsval" where
  "openRouterMessage data =
     bindE (getProp data (js ''choices'')) (\<lambda>choices.
     bindE (getIndex choices 0) (\<lambda>choice.
     getProp choice (js ''message'')))"

definition OPENROUTER_URL :: jsstring where
  "OPENROUTER_URL = js ''https://openrouter.ai/api/v1/chat/completions''"

definition callOpenRouter :: "network \<Rightarrow> ChatMessage list \<Rightarrow> jsstring \<Rightarrow> jsstring \<Rightarrow> LLMResponse sent" where
  "callOpenRouter net messages key mdl =
     (let req = \<lparr>url = OPENROUTER_URL, bearer = Some key, payload = OpenRouterBody mdl messages True\<rparr>
      in (bindE (fetch net req) (\<lambda>r.
            if \<not> ok r then Inl (apiError net ''OpenRouter'' r)
            else bindE (json r) (\<lambda>data.
                 bindE (openRouterMessage data) (\<lambda>message.
                 bindE (getProp message (js ''content'')) (\<lambda>c.
                 bindE (getProp message (js ''tool_calls'')) (\<lambda>tcs.
                 bindE (mapToolCalls net tcs) (\<lambda>calls.
                 Inr \<lparr>responseText = orElse c (JStr []), toolCalls = calls\<rparr>)))))),
          [req]))"

text \<open>The prompt that the Gemini and the HuggingFace adapter assemble from the conversation.\<close>

definition contextSuffix :: "jsstring option \<Rightarrow> jsstring" where
  "contextSuffix excelContext =
     (case excelContext of None \<Rightarrow> [] | Some c \<Rightarrow> if c = [] then [] else NL @ NL @ c)"

definition turnLine :: "ChatMessage \<Rightarrow> jsstring" where
  "turnLine msg = (if role msg = User then js ''User'' else js ''Assistant'') @ js '': '' @ content msg @ NL"

definition buildPrompt :: "network \<Rightarrow> ChatMessage list \<Rightarrow> jsstring option \<Rightarrow> jsstring" where
  "buildPrompt net messages excelContext =
     foldl (\<lambda>prompt msg. prompt @ turnLine msg)
       (systemPrompt net @ contextSuffix excelContext @ NL @ NL @ js ''Conversation:'' @ NL) messages
     @ js ''Assistant:''"

text \<open>
  The loop over the parts of a Gemini candidate. The state is the text and the tool
  calls collected so far.
\<close>

fun geminiParts :: "network \<Rightarrow> jsval list \<Rightarrow> jsstring \<Rightarrow> jsval list \<Rightarrow> exn + jsstring \<times> jsval list" where
  "geminiParts net [] txt calls = Inr (txt, calls)"
| "geminiParts net (part # rest) txt calls =
     bindE (getProp part (js ''text'')) (\<lambda>t.
     bindE (if truthy t then bindE (ToString (numberToString net) t) (\<lambda>s. Inr (txt @ s)) else Inr txt) (\<lambda>txt'.
     bindE (getProp part (js ''functionCall'')) (\<lambda>fc.
     bindE (if truthy fc
            then bindE (getProp fc (js ''name'')) (\<lambda>nm.
                 bindE (getProp fc (js ''args'')) (\<lambda>a.
                 Inr (calls @ [JObj [(js ''name'', nm), (js ''arguments'', a)]])))
            else Inr calls) (\<lambda>calls'.
     geminiParts net rest txt' calls'))))"

text \<open>
  \<open>for (const part of parts)\<close>: an array is iterated; a string is iterated too, over
  strings that have neither a \<open>text\<close> nor a \<open>functionCall\<close>, so that nothing is
  collected; anything else is not iterable.
\<close>

definition iterateParts :: "network \<Rightarrow> jsval \<Rightarrow> exn + jsstring \<times> jsval list" where
  "iterateParts net parts =
     (case parts of
        JArr xs \<Rightarrow> geminiParts net xs [] []
      | JStr s \<Rightarrow> Inr ([], [])
      | _ \<Rightarrow> Inl (TypeError (js ''parts is not iterable'')))"

definition geminiPartsOf :: "jsval \<Rightarrow> exn + jsval" where
  "geminiPartsOf data =
     bindE (getProp data (js ''candidates'')) (\<lambda>candidates.
     bindE (getIndex candidates 0) (\<lambda>candidate.
     bindE (getProp candidate (js ''content'')) (\<lambda>c.
     getProp c (js ''parts''))))"

definition GEMINI_URL :: jsstring where
  "GEMINI_URL = js ''https://generativelanguage.googleapis.com/v1beta/models/gemini-3-flash-preview:generateContent?key=''"

definition callGemini :: "network \<Rightarrow> ChatMessage list \<Rightarrow> jsstring \<Rightarrow> jsstring option \<Rightarrow> LLMResponse sent" where
  "callGemini net messages key excelContext =
     (let req = \<lparr>url = GEMINI_URL @ key, bearer = None,
                  payload = GeminiBody (buildPrompt net messages excelContext) True\<rparr>
      in (bindE (fetch net req) (\<lambda>r.
            if \<not> ok r then Inl (apiError net ''Gemini'' r)
            else bindE (json r) (\<lambda>data.
                 bindE (geminiPartsOf data) (\<lambda>parts.
                 bindE (iterateParts net parts) (\<lambda>(txt, calls).
                 Inr \<lparr>responseText = JStr txt, toolCalls = (if length calls > 0 then Some calls else None)\<rparr>)))),
          [req]))"

text \<open>
  \<open>String.prototype.replace\<close> with a string pattern replaces the first occurrence (the
  replacement is always the empty string here, so no \<open>$\<close> pattern is in play), and
  \<open>trim\<close> removes white space and line terminators from both ends.
\<close>

fun splitAtFirst :: "'a list \<Rightarrow> 'a list \<Rightarrow> ('a list \<times> 'a list) option" where
  "splitAtFirst p [] = (if p = [] then Some ([], []) else None)"
| "splitAtFirst p (c # cs) =
     (if startsWith (c # cs) p then Some ([], drop (length p) (c # cs))
      else (case splitAtFirst p cs of None \<Rightarrow> None | Some (before, after) \<Rightarrow> Some (c # before, after)))"

definition replaceFirst :: "jsstring \<Rightarrow> jsstring \<Rightarrow> jsstring \<Rightarrow> jsstring" where
  "replaceFirst pattern replacement s =
     (case splitAtFirst pattern s of None \<Rightarrow> s | Some (before, after) \<Rightarrow> before @ replacement @ after)"

definition isWhiteSpace :: "jschar \<Rightarrow> bool" where
  "isWhiteSpace c =
     (c = 9 \<or> c = 10 \<or> c = 11 \<or> c = 12 \<or> c = 13 \<or> c = 32 \<or> c = 160 \<or> c = 5760
      \<or> (8192 \<le> c \<and> c \<le> 8202) \<or> c = 8232 \<or> c = 8233 \<or> c = 8239 \<or> c = 8287
      \<or> c = 12288 \<or> c = 65279)"

definition trim :: "jsstring \<Rightarrow> jsstring" where
  "trim s = rev (dropWhile isWhiteSpace (rev (dropWhile isWhiteSpace s)))"

text \<open>\<open>g.replace(prompt, '').trim()\<close> on a value that should be a string.\<close>

definition replaceTrim :: "jsstring \<Rightarrow> jsval \<Rightarrow> exn + jsstring" where
  "replaceTrim prompt g =
     (case g of
        JStr s \<Rightarrow> Inr (trim (replaceFirst prompt [] s))
      | JUndefined \<Rightarrow> Inl (cannotRead ''undefined'' (js ''replace''))
      | JNull \<Rightarrow> Inl (cannotRead ''null'' (js ''replace''))
      | _ \<Rightarrow> Inl (TypeError (js ''generated_text.replace is not a function'')))"

definition HUGGINGFACE_URL :: jsstring where
  "HUGGINGFACE_URL = js ''https://api-inference.huggingface.co/models/meta-llama/Llama-3.2-1B-Instruct''"

definition callHuggingFace :: "network \<Rightarrow> ChatMessage list \<Rightarrow> jsstring \<Rightarrow> jsstring option \<Rightarrow> jsstring sent" where
  "callHuggingFace net messages key excelContext =
     (let prompt = buildPrompt net messages excelContext;
          req = \<lparr>url = HUGGINGFACE_URL, bearer = Some key, payload = HuggingFaceBody prompt\<rparr>
      in (bindE (fetch net req) (\<lambda>r.
            if \<not> ok r then Inl (apiError_hf net r)
            else bindE (json r) (\<lambda>data.
                 if isArray data then
                   bindE (getIndex data 0) (\<lambda>first.
                   bindE (getProp first (js ''generated_text'')) (\<lambda>g.
                   replaceTrim prompt g))
                 else
                   bindE (getProp data (js ''generated_text'')) (\<lambda>g.
                   if g = JNull \<or> g = JUndefined then Inr (js ''No response generated'')
                   else bindE (replaceTrim prompt g) (\<lambda>t.
                        Inr (if t = [] then js ''No response generated'' else t))))),
          [req]))"

definition missingKey :: exn where
  "missingKey = Error (js ''Please configure your API key in Settings'')"

definition unknownProvider :: "jsstring \<Rightarrow> exn" where
  "unknownProvider p = Error (js ''Unknown provider: '' @ p)"

text \<open>
  \<open>LLMService.chat\<close>, in the version with tool calling. The settings are read first;
  without a key nothing is sent.
\<close>

definition chat :: "network \<Rightarrow> ChatMessage list \<Rightarrow> jsstring option \<Rightarrow> env \<Rightarrow> LLMResponse sent \<times> env" where
  "chat net messages excelContext w =
     (case getSettings w of
        (settings, w') \<Rightarrow>
          (if apiKey settings = None \<or> apiKey settings = Some [] then ((Inl missingKey, []), w')
           else
             (let key = (case apiKey settings of Some k \<Rightarrow> k | None \<Rightarrow> []);
                  fullMessages = \<lparr>role = System, content = systemPrompt net @ contextSuffix excelContext\<rparr> # messages
              in if provider settings = js ''openrouter'' then
                   (callOpenRouter net fullMessages key (model settings), w')
                 else if provider settings = js ''gemini'' then
                   (callGemini net messages key excelContext, w')
                 else if provider settings = js ''huggingface'' then
                   (case callHuggingFace net messages key excelContext of
                      (r, reqs) \<Rightarrow>
                        ((bindE r (\<lambda>t. Inr \<lparr>responseText = JStr t, toolCalls = None\<rparr>), reqs), w'))
                 else ((Inl (unknownProvider (provider settings)), []), w'))))"

text \<open>
  The earlier version of the service, without tools: the adapters return the text of the
  reply, the rest is the same.
\<close>

definition callOpenRouter_text :: "network \<Rightarrow> ChatMessage list \<Rightarrow> jsstring \<Rightarrow> jsstring \<Rightarrow> jsval sent" where
  "callOpenRouter_text net messages key mdl =
     (let req = \<lparr>url = OPENROUTER_URL, bearer = Some key, payload = OpenRouterBody mdl messages False\<rparr>
      in (bindE (fetch net req) (\<lambda>r.
            if \<not> ok r then Inl (apiError net ''OpenRouter'' r)
            else bindE (json r) (\<lambda>data.
                 bindE (openRouterMessage data) (\<lambda>message.
                 getProp message (js ''content'')))),
          [req]))"

definition callGemini_text :: "network \<Rightarrow> ChatMessage list \<Rightarrow> jsstring \<Rightarrow> jsstring option \<Rightarrow> jsval sent" where
  "callGemini_text net messages key excelContext =
     (let req = \<lparr>url = GEMINI_URL @ key, bearer = None,
                  payload = GeminiBody (buildPrompt net messages excelContext) False\<rparr>
      in (bindE (fetch net req) (\<lambda>r.
            if \<not> ok r then Inl (apiError net ''Gemini'' r)
            else bindE (json r) (\<lambda>data.
                 bindE (geminiPartsOf data) (\<lambda>parts.
                 bindE (getIndex parts 0) (\<lambda>part.
                 getProp part (js ''text''))))),
          [req]))"

definition chat_text :: "network \<Rightarrow> ChatMessage list \<Rightarrow> jsstring option \<Rightarrow> env \<Rightarrow> jsval sent \<times> env" where
  "chat_text net messages excelContext w =
     (case getSettings w of
        (settings, w') \<Rightarrow>
          (if apiKey settings = None \<or> apiKey settings = Some [] then ((Inl missingKey, []), w')
           else
             (let key = (case apiKey settings of Some k \<Rightarrow> k | None \<Rightarrow> []);
                  fullMessages = \<lparr>role = System, content = systemPrompt net @ contextSuffix excelContext\<rparr> # messages
              in if provider settings = js ''openrouter'' then
                   (callOpenRouter_text net fullMessages key (model settings), w')
                 else if provider settings = js ''gemini'' then
                   (callGemini_text net messages key excelContext, w')
                 else if provider settings = js ''huggingface'' then
                   (case callHuggingFace net messages key excelContext of
                      (r, reqs) \<Rightarrow> ((bindE r (\<lambda>t. Inr (JStr t)), reqs), w'))
                 else ((Inl (unknownProvider (provider settings)), []), w'))))"

section \<open>Properties of the LLM service\<close>

lemma getApiKey_without_key: "\<not> hasApiKey w \<Longrightarrow> getApiKey w = (None, w)"
  by (auto simp: hasApiKey_def getApiKey_def split: option.splits)

text \<open>
  C4. When the store holds no API key, \<open>chat\<close> fails with the missing-credential error
  and has sent no request; so does the earlier version of the service.
\<close>

theorem chat_without_key_sends_nothing:
  assumes "\<not> hasApiKey w"
  shows "fst (chat net messages excelContext w) = (Inl missingKey, [])
       \<and> fst (chat_text net messages excelContext w) = (Inl missingKey, [])
       \<and> missingKey = Error (js ''Please configure your API key in Settings'')"
  using getApiKey_without_key [OF assms]
  by (simp add: chat_def chat_text_def getSettings_def missingKey_def)

definition noNetwork :: network where
  "noNetwork = \<lparr>fetch = (\<lambda>req. Inl (TypeError (js ''Failed to fetch''))), numberToString = (\<lambda>q. []),
                 systemPrompt = js ''You are an expert Excel AI assistant.''\<rparr>"

theorem chat_without_key_sends_nothing_witness:
  "\<not> hasApiKey emptyEnv
   \<and> fst (chat noNetwork [\<lparr>role = User, content = js ''Set A1 to 5''\<rparr>] None emptyEnv) = (Inl missingKey, [])
   \<and> fst (chat_text noNetwork [\<lparr>role = User, content = js ''Set A1 to 5''\<rparr>] None emptyEnv) = (Inl missingKey, [])
   \<and> missingKey = Error (js ''Please configure your API key in Settings'')"
proof -
  have h: "\<not> hasApiKey emptyEnv"
    by (simp add: hasApiKey_def emptyEnv_def getItem_def)
  from chat_without_key_sends_nothing [OF h] h show ?thesis
    by simp
qed

text \<open>
  Supporting facts on the error of a response that is not ok: the generic message when
  the body is not JSON or has no \<open>error\<close>, the backend's message when it has one.
\<close>

lemma apiError_not_json:
  "JSON_parse (body r) = None \<Longrightarrow>
   apiError net label r = Error (js label @ js '' API error: '' @ decimal (status r))"
  by (simp add: apiError_def jsonOrEmpty_def json_def bindE_def getOptional_def orElse_def
      newError_def genericError_def)

lemma apiError_backend_message:
  assumes "JSON_parse (body r) = Some (JObj kvs)"
    and "map_of kvs (js ''error'') = Some (JObj e)"
    and "map_of e (js ''message'') = Some (JStr m)" and "m \<noteq> []"
  shows "apiError net label r = Error m"
  using assms
  by (simp add: apiError_def jsonOrEmpty_def json_def bindE_def getOptional_def orElse_def newError_def)

lemma apiError_hf_backend_message:
  assumes "JSON_parse (body r) = Some (JObj kvs)"
    and "map_of kvs (js ''error'') = Some (JStr m)" and "m \<noteq> []"
  shows "apiError_hf net r = Error m"
  using assms
  by (simp add: apiError_hf_def jsonOrEmpty_def json_def orElse_def newError_def)

lemma apiError_hf_not_json:
  "JSON_parse (body r) = None \<Longrightarrow>
   apiError_hf net r = Error (js ''HuggingFace API error: '' @ decimal (status r))"
  by (simp add: apiError_hf_def jsonOrEmpty_def json_def orElse_def newError_def genericError_def js_def)

text \<open>A backend that answers every request with status 500 and the given body.\<close>

definition failingBackend :: "jsstring \<Rightarrow> network" where
  "failingBackend b = \<lparr>fetch = (\<lambda>req. Inr \<lparr>status = 500, body = b\<rparr>), numberToString = (\<lambda>q. []),
                        systemPrompt = js ''You are an expert Excel AI assistant.''\<rparr>"

lemmas adapter_eval = callOpenRouter_def callGemini_def callHuggingFace_def callOpenRouter_text_def
  callGemini_text_def apiError_def apiError_hf_def jsonOrEmpty_def json_def bindE_def getOptional_def
  orElse_def newError_def genericError_def failingBackend_def ok_def Let_def cannotRead_def SQ_def
  decimal.simps

text \<open>
  C8 (the code departs from it). The backend answers 500 with the body \<open>null\<close>, which
  is JSON: \<open>catch\<close> does not replace it by \<open>{}\<close>, reading \<open>error.error\<close> throws, and
  what reaches the caller is that TypeError, neither a message of the backend nor the
  generic one. With a body that is not JSON, or with a message in the body, the adapters
  do what the claim says.
\<close>

theorem adapters_null_error_body:
  \<open>fst (callOpenRouter (failingBackend (js ''null'')) [] (js ''sk-1'') (js ''m'')) = Inl (cannotRead ''null'' (js ''error''))
   \<and> fst (callGemini (failingBackend (js ''null'')) [] (js ''sk-1'') None) = Inl (cannotRead ''null'' (js ''error''))
   \<and> fst (callHuggingFace (failingBackend (js ''null'')) [] (js ''sk-1'') None) = Inl (cannotRead ''null'' (js ''error''))
   \<and> fst (callOpenRouter_text (failingBackend (js ''null'')) [] (js ''sk-1'') (js ''m'')) = Inl (cannotRead ''null'' (js ''error''))
   \<and> cannotRead ''null'' (js ''error'') = TypeError (js ''Cannot read properties of null (reading 'error')'')
   \<and> fst (callOpenRouter (failingBackend (js ''Bad Gateway'')) [] (js ''sk-1'') (js ''m''))
        = Inl (Error (js ''OpenRouter API error: 500''))
   \<and> fst (callGemini (failingBackend (js ''{"error":{"message":"Quota exceeded"}}'')) [] (js ''sk-1'') None)
        = Inl (Error (js ''Quota exceeded''))
   \<and> fst (callHuggingFace (failingBackend (js ''{"error":"Model is loading"}'')) [] (js ''sk-1'') None)
        = Inl (Error (js ''Model is loading''))\<close>
  by (simp add: adapter_eval json_eval)




section \<open>Chat interface: normalizing a response\<close>

text \<open>
  The regular expression \<open>/```excel-json\s*([\s\S]*?)```/\<close> matches at the first
  \<open>```excel-json\<close> that is followed, anywhere later, by \<open>```\<close>. The white space
  after the tag is skipped greedily, the group is lazy, and a fence holds no white space:
  the group is the text from the first character that is not white space up to the next
  fence, and backtracking cannot produce another match. When the first tag has no fence
  after it, no later tag has one either. The result is the text before the match, the
  group, and the text after the match.
\<close>

definition FENCE :: jsstring where
  "FENCE = js ''```''"

definition FENCE_OPEN :: jsstring where
  "FENCE_OPEN = js ''```excel-json''"

definition matchFence :: "jsstring \<Rightarrow> (jsstring \<times> jsstring \<times> jsstring) option" where
  "matchFence s =
     (case splitAtFirst FENCE_OPEN s of
        None \<Rightarrow> None
      | Some (before, rest) \<Rightarrow>
          (case splitAtFirst FENCE (dropWhile isWhiteSpace rest) of
             None \<Rightarrow> None
           | Some (group1, after) \<Rightarrow> Some (before, group1, after)))"

text \<open>\<open>content.replace(/```excel-json[\s\S]*?```/, '')\<close>: the same match, without the group.\<close>

definition removeFence :: "jsstring \<Rightarrow> jsstring" where
  "removeFence s =
     (case splitAtFirst FENCE_OPEN s of
        None \<Rightarrow> s
      | Some (before, rest) \<Rightarrow>
          (case splitAtFirst FENCE rest of None \<Rightarrow> s | Some (inner, after) \<Rightarrow> before @ after))"

text \<open>
  \<open>extractExcelActions\<close>: the parsed group, or \<open>null\<close> when there is no match, the
  group is empty, or it is not JSON (which is logged). The second component says whether
  the parse failure was logged.
\<close>

definition extractExcelActions :: "jsstring \<Rightarrow> jsval \<times> bool" where
  "extractExcelActions s =
     (case matchFence s of
        None \<Rightarrow> (JNull, False)
      | Some (before, group1, after) \<Rightarrow>
          (if group1 = [] then (JNull, False)
           else (case JSON_parse group1 of None \<Rightarrow> (JNull, True) | Some v \<Rightarrow> (v, False))))"

datatype shown = Literal jsstring | MessageOf exn

record Message =
  msgId :: jsstring
  sender :: role
  shownText :: jsstring
  timestamp :: nat

record ui =
  messages :: "Message list"
  input :: jsstring
  isLoading :: bool
  error :: "shown option"
  pendingActions :: jsval
  parseFailures :: nat


definition PREPARED_REVIEW :: jsstring where
  "PREPARED_REVIEW = js ''I have prepared the changes for you. Please review and apply them.''"

definition PREPARED :: jsstring where
  "PREPARED = js ''I have prepared the changes for you.''"

definition EXECUTE_EXCEL_OPERATIONS :: jsval where
  "EXECUTE_EXCEL_OPERATIONS = JStr (js ''execute_excel_operations'')"

text \<open>
  \<open>toolCalls.flatMap(...)\<close>: the operations of every call of
  \<open>execute_excel_operations\<close>, in order. What a callback returns is spliced in when it
  is an array and added as one element otherwise.
\<close>

definition spliced :: "jsval \<Rightarrow> jsval list" where
  "spliced v = (case v of JArr xs \<Rightarrow> xs | _ \<Rightarrow> [v])"

definition operationsOf :: "jsval \<Rightarrow> exn + jsval list" where
  "operationsOf tc =
     bindE (getProp tc (js ''name'')) (\<lambda>nm.
     if nm = EXECUTE_EXCEL_OPERATIONS
     then bindE (getProp tc (js ''arguments'')) (\<lambda>a.
          bindE (getProp a (js ''operations'')) (\<lambda>ops.
          Inr (spliced (orElse ops (JArr [])))))
     else Inr [])"

fun flatOperations :: "jsval list \<Rightarrow> exn + jsval list" where
  "flatOperations [] = Inr []"
| "flatOperations (tc # rest) =
     bindE (operationsOf tc) (\<lambda>xs.
     bindE (flatOperations rest) (\<lambda>ys. Inr (xs @ ys)))"

text \<open>
  The part of \<open>sendMessage\<close> (the version with tool calling) that follows
  \<open>await LLMService.chat(...)\<close>, inside the \<open>try\<close>: the state it leaves, and the
  exception if one is thrown on the way. \<open>t\<close> is what \<open>Date.now()\<close> reads.
\<close>

definition assistantMessage :: "nat \<Rightarrow> jsstring \<Rightarrow> Message" where
  "assistantMessage t c = \<lparr>msgId = decimal (t + 1), sender = Assistant, shownText = c, timestamp = t\<rparr>"

definition onResponse :: "nat \<Rightarrow> LLMResponse \<Rightarrow> ui \<Rightarrow> exn option \<times> ui" where
  "onResponse t response u =
     (let assistantContent = orElse (responseText response) (JStr []);
          native = (case toolCalls response of
                      None \<Rightarrow> Inr None
                    | Some tcs \<Rightarrow> if length tcs > 0 then bindE (flatOperations tcs) (\<lambda>ops. Inr (Some ops)) else Inr None)
      in case native of
           Inl e \<Rightarrow> (Some e, u)
         | Inr found \<Rightarrow>
             (let hasNative = (case found of Some allOperations \<Rightarrow> length allOperations > 0 | None \<Rightarrow> False);
                  u = (case found of
                         Some allOperations \<Rightarrow> if hasNative then u\<lparr>pendingActions := JArr allOperations\<rparr> else u
                       | None \<Rightarrow> u);
                  assistantContent = (if hasNative \<and> \<not> truthy assistantContent then JStr PREPARED_REVIEW
                                      else assistantContent)
              in case assistantContent of
                   JStr s \<Rightarrow>
                     (case extractExcelActions s of
                        (actionsData, logged) \<Rightarrow>
                          (let u = (if logged then u\<lparr>parseFailures := parseFailures u + 1\<rparr> else u);
                               operations = (case getProp actionsData (js ''operations'') of Inr v \<Rightarrow> v | Inl e \<Rightarrow> JUndefined)
                           in if truthy actionsData \<and> truthy operations then
                                (None, u\<lparr>pendingActions := operations,
                                         messages := messages u @
                                           [assistantMessage t
                                              (if trim (removeFence s) = [] then PREPARED else trim (removeFence s))]\<rparr>)
                              else (None, u\<lparr>messages := messages u @ [assistantMessage t s]\<rparr>)))
                 | _ \<Rightarrow> (Some (TypeError (js ''content.match is not a function'')), u)))"

text \<open>
  \<open>sendMessage\<close>. The awaited reading of the workbook and the call of the service are
  the parameter \<open>outcome\<close>: the response, or what was thrown.
\<close>

definition userMessage :: "nat \<Rightarrow> jsstring \<Rightarrow> Message" where
  "userMessage t s = \<lparr>msgId = decimal t, sender = User, shownText = s, timestamp = t\<rparr>"

definition sendMessage :: "nat \<Rightarrow> nat \<Rightarrow> exn + LLMResponse \<Rightarrow> env \<Rightarrow> ui \<Rightarrow> ui" where
  "sendMessage t0 t1 outcome w u =
     (if trim (input u) = [] \<or> isLoading u then u
      else if \<not> hasApiKey w then
        u\<lparr>error := Some (Literal (js ''Please configure your API key in Settings first.''))\<rparr>
      else
        (let u = u\<lparr>messages := messages u @ [userMessage t0 (trim (input u))], input := [],
                   error := None, isLoading := True, pendingActions := JArr []\<rparr>;
             u = (case outcome of
                    Inl e \<Rightarrow> u\<lparr>error := Some (MessageOf e)\<rparr>
                  | Inr response \<Rightarrow>
                      (case onResponse t1 response u of
                         (Some e, u') \<Rightarrow> u'\<lparr>error := Some (MessageOf e)\<rparr>
                       | (None, u') \<Rightarrow> u'))
         in u\<lparr>isLoading := False\<rparr>))"

text \<open>
  The earlier version of the component, for the service without tools. The reply is
  cleaned of the block whether or not the block could be parsed.
\<close>

definition onReply :: "nat \<Rightarrow> jsval \<Rightarrow> ui \<Rightarrow> exn option \<times> ui" where
  "onReply t response u =
     (case response of
        JStr s \<Rightarrow>
          (case extractExcelActions s of
             (actionsData, logged) \<Rightarrow>
               (let u = (if logged then u\<lparr>parseFailures := parseFailures u + 1\<rparr> else u);
                    cleanResponse = trim (removeFence s);
                    u = u\<lparr>messages := messages u @
                            [assistantMessage t
                               (if cleanResponse \<noteq> [] then cleanResponse
                                else if truthy actionsData then PREPARED else s)]\<rparr>;
                    operations = (case getProp actionsData (js ''operations'') of Inr v \<Rightarrow> v | Inl e \<Rightarrow> JUndefined)
                in if truthy actionsData \<and> truthy operations
                   then (None, u\<lparr>pendingActions := operations\<rparr>)
                   else (None, u)))
      | JUndefined \<Rightarrow> (Some (cannotRead ''undefined'' (js ''match'')), u)
      | JNull \<Rightarrow> (Some (cannotRead ''null'' (js ''match'')), u)
      | _ \<Rightarrow> (Some (TypeError (js ''content.match is not a function'')), u))"

definition sendMessage_text :: "nat \<Rightarrow> nat \<Rightarrow> exn + jsval \<Rightarrow> env \<Rightarrow> ui \<Rightarrow> ui" where
  "sendMessage_text t0 t1 outcome w u =
     (if trim (input u) = [] \<or> isLoading u then u
      else if \<not> hasApiKey w then
        u\<lparr>error := Some (Literal (js ''Please configure your API key in Settings first.''))\<rparr>
      else
        (let u = u\<lparr>messages := messages u @ [userMessage t0 (trim (input u))], input := [],
                   error := None, isLoading := True, pendingActions := JArr []\<rparr>;
             u = (case outcome of
                    Inl e \<Rightarrow> u\<lparr>error := Some (MessageOf e)\<rparr>
                  | Inr response \<Rightarrow>
                      (case onReply t1 response u of
                         (Some e, u') \<Rightarrow> u'\<lparr>error := Some (MessageOf e)\<rparr>
                       | (None, u') \<Rightarrow> u'))
         in u\<lparr>isLoading := False\<rparr>))"


section \<open>Properties of the normalization\<close>

definition envWithKey :: env where
  "envWithKey = \<lparr>store = [KEY_API_KEY \<mapsto> js ''c2stMQ==''], console = []\<rparr>"

definition idle :: "jsstring \<Rightarrow> ui" where
  "idle typed = \<lparr>messages = [], input = typed, isLoading = False, error = None,
                  pendingActions = JArr [], parseFailures = 0\<rparr>"

definition setB2 :: jsval where
  "setB2 = JObj [(js ''action'', JStr (js ''setCellValue'')), (js ''address'', JStr (js ''B2'')),
                 (js ''value'', JStr (js ''7''))]"

definition nativeCall :: "jsval list \<Rightarrow> jsval" where
  "nativeCall ops = JObj [(js ''name'', EXECUTE_EXCEL_OPERATIONS),
                          (js ''arguments'', JObj [(js ''operations'', JArr ops)])]"

definition bothSources :: LLMResponse where
  \<open>bothSources = \<lparr>responseText =
        JStr (js ''Done. ```excel-json {"operations":[{"action":"setCellValue","address":"B2","value":"7"}]}```''),
      toolCalls = Some [nativeCall [setA1]]\<rparr>\<close>

definition malformedBlock :: jsstring where
  \<open>malformedBlock = js ''Here is the plan. ```excel-json {"operations": [}``` Let me know.''\<close>

lemmas send_eval = sendMessage_def sendMessage_text_def onResponse_def onReply_def extractExcelActions_def
  matchFence_def removeFence_def FENCE_def FENCE_OPEN_def trim_def isWhiteSpace_def hasApiKey_def
  getItem_def envWithKey_def idle_def KEY_API_KEY_def orElse_def Let_def bindE_def operationsOf_def
  spliced_def EXECUTE_EXCEL_OPERATIONS_def nativeCall_def userMessage_def assistantMessage_def
  PREPARED_def PREPARED_REVIEW_def decimal.simps


lemma startsWith_take: "startsWith s p \<longleftrightarrow> take (length p) s = p"
  by (induction s p rule: startsWith.induct) auto

lemma splitAtFirst_Some: "splitAtFirst p s = Some (a, b) \<Longrightarrow> s = a @ p @ b"
proof (induction s arbitrary: a)
  case Nil
  then show ?case by (simp split: if_splits)
next
  case (Cons c cs)
  show ?case
  proof (cases "startsWith (c # cs) p")
    case True
    then have "take (length p) (c # cs) = p"
      by (simp only: startsWith_take)
    then have "c # cs = p @ drop (length p) (c # cs)"
      by (metis append_take_drop_id)
    then show ?thesis using Cons.prems True by simp
  next
    case False
    then obtain a' where "splitAtFirst p cs = Some (a', b)" "a = c # a'"
      using Cons.prems by (auto split: option.splits)
    then show ?thesis using Cons.IH by simp
  qed
qed

text \<open>White space before the closing fence changes nothing but the text in front of it.\<close>

lemma splitAtFirst_FENCE_skip:
  "\<forall>c \<in> set ws. isWhiteSpace c \<Longrightarrow>
   splitAtFirst FENCE (ws @ r) = (case splitAtFirst FENCE r of None \<Rightarrow> None | Some (a, b) \<Rightarrow> Some (ws @ a, b))"
proof (induction ws)
  case Nil
  then show ?case by (simp split: option.splits)
next
  case (Cons c ws)
  then have "c \<noteq> 96" by (auto simp: isWhiteSpace_def)
  then have "\<not> startsWith (c # ws @ r) FENCE"
    by (simp add: FENCE_def js_def)
  then show ?case using Cons by (simp split: option.splits)
qed

lemma splitAtFirst_FENCE_dropWhile:
  "splitAtFirst FENCE rest =
     (case splitAtFirst FENCE (dropWhile isWhiteSpace rest) of
        None \<Rightarrow> None
      | Some (a, b) \<Rightarrow> Some (takeWhile isWhiteSpace rest @ a, b))"
proof -
  have "\<forall>c \<in> set (takeWhile isWhiteSpace rest). isWhiteSpace c"
    by (auto dest: set_takeWhileD)
  from splitAtFirst_FENCE_skip [OF this, of "dropWhile isWhiteSpace rest"] show ?thesis
    by simp
qed

text \<open>The two regular expressions of the component match the same stretch of the text.\<close>

lemma removeFence_match:
  assumes "matchFence s = Some (before, group1, after)"
  shows "removeFence s = before @ after"
proof -
  obtain rest where r: "splitAtFirst FENCE_OPEN s = Some (before, rest)"
    and g: "splitAtFirst FENCE (dropWhile isWhiteSpace rest) = Some (group1, after)"
    using assms by (auto simp: matchFence_def split: option.splits)
  have "splitAtFirst FENCE rest = Some (takeWhile isWhiteSpace rest @ group1, after)"
    using splitAtFirst_FENCE_dropWhile [of rest] g by simp
  then show ?thesis using r by (simp add: removeFence_def)
qed

lemma removeFence_no_match:
  assumes "matchFence s = None"
  shows "removeFence s = s"
proof (cases "splitAtFirst FENCE_OPEN s")
  case None
  then show ?thesis by (simp add: removeFence_def)
next
  case (Some br)
  obtain before rest where br: "br = (before, rest)"
    by (cases br)
  have "splitAtFirst FENCE (dropWhile isWhiteSpace rest) = None"
    using assms Some br by (auto simp: matchFence_def split: option.splits)
  then have "splitAtFirst FENCE rest = None"
    using splitAtFirst_FENCE_dropWhile [of rest] by simp
  then show ?thesis using Some br by (simp add: removeFence_def)
qed

lemma matchFence_shape:
  assumes "matchFence s = Some (before, group1, after)"
  shows "\<exists>ws. (\<forall>c \<in> set ws. isWhiteSpace c) \<and> s = before @ FENCE_OPEN @ ws @ group1 @ FENCE @ after"
proof -
  obtain rest where r: "splitAtFirst FENCE_OPEN s = Some (before, rest)"
    and g: "splitAtFirst FENCE (dropWhile isWhiteSpace rest) = Some (group1, after)"
    using assms by (auto simp: matchFence_def split: option.splits)
  have "s = before @ FENCE_OPEN @ rest"
    using r by (rule splitAtFirst_Some)
  moreover have "rest = takeWhile isWhiteSpace rest @ dropWhile isWhiteSpace rest"
    by simp
  moreover have "dropWhile isWhiteSpace rest = group1 @ FENCE @ after"
    using g by (rule splitAtFirst_Some)
  moreover have "\<forall>c \<in> set (takeWhile isWhiteSpace rest). isWhiteSpace c"
    by (auto dest: set_takeWhileD)
  ultimately show ?thesis by metis
qed


lemma matchFence_nonempty: "matchFence s = Some m \<Longrightarrow> s \<noteq> []"
  by (auto simp: matchFence_def FENCE_OPEN_def js_def)

text \<open>
  What the component with tool calling does with a fenced block that parses to an object
  whose \<open>operations\<close> is an array: these operations become the pending batch, whatever
  the native tool calls carried, and the block is removed from the text shown.
\<close>

lemma onResponse_block_operations:
  assumes rt: "responseText r = JStr s"
    and m: "matchFence s = Some (before, group1, after)" and g: "group1 \<noteq> []"
    and p: "JSON_parse group1 = Some (JObj kvs)"
    and o: "map_of kvs (js ''operations'') = Some (JArr ops)"
    and calls: "toolCalls r = None \<or> (\<exists>tcs found. toolCalls r = Some tcs \<and> flatOperations tcs = Inr found)"
  shows "onResponse t r u =
           (None, u\<lparr>pendingActions := JArr ops,
                    messages := messages u @
                      [assistantMessage t (if trim (before @ after) = [] then PREPARED else trim (before @ after))]\<rparr>)"
proof -
  have ne: "s \<noteq> []" using m by (rule matchFence_nonempty)
  have ex: "extractExcelActions s = (JObj kvs, False)"
    using m g p by (simp add: extractExcelActions_def)
  have rf: "removeFence s = before @ after"
    using m by (rule removeFence_match)
  from calls show ?thesis
  proof
    assume "toolCalls r = None"
    then show ?thesis
      using rt ne ex rf o by (simp add: onResponse_def orElse_def Let_def)
  next
    assume "\<exists>tcs found. toolCalls r = Some tcs \<and> flatOperations tcs = Inr found"
    then obtain tcs found where "toolCalls r = Some tcs" "flatOperations tcs = Inr found"
      by blast
    then show ?thesis
      using rt ne ex rf o by (simp add: onResponse_def orElse_def Let_def bindE_def)
  qed
qed

text \<open>
  With a block that is not JSON (and no native call) nothing becomes pending, one parse
  failure is logged, and the text is shown as it came, block included.
\<close>

lemma onResponse_malformed_block:
  assumes "responseText r = JStr s" and "toolCalls r = None"
    and "matchFence s = Some (before, group1, after)" and "group1 \<noteq> []"
    and "JSON_parse group1 = None"
  shows "onResponse t r u =
           (None, u\<lparr>parseFailures := parseFailures u + 1, messages := messages u @ [assistantMessage t s]\<rparr>)"
proof -
  have "s \<noteq> []" using assms(3) by (rule matchFence_nonempty)
  moreover have "extractExcelActions s = (JNull, True)"
    using assms(3,4,5) by (simp add: extractExcelActions_def)
  ultimately show ?thesis
    using assms(1,2) by (simp add: onResponse_def orElse_def Let_def)
qed

text \<open>The earlier component removes such a block from the text it shows.\<close>

lemma onReply_malformed_block:
  assumes "matchFence s = Some (before, group1, after)" and "group1 \<noteq> []"
    and "JSON_parse group1 = None"
  shows "onReply t (JStr s) u =
           (None, u\<lparr>parseFailures := parseFailures u + 1,
                    messages := messages u @
                      [assistantMessage t (if trim (before @ after) \<noteq> [] then trim (before @ after) else s)]\<rparr>)"
proof -
  have "extractExcelActions s = (JNull, True)"
    using assms by (simp add: extractExcelActions_def)
  moreover have "removeFence s = before @ after"
    using assms(1) by (rule removeFence_match)
  ultimately show ?thesis
    by (simp add: onReply_def Let_def)
qed

text \<open>
  C1 (the code departs from it). The response carries a native call that sets A1 and a
  fenced block that sets B2. The native operations are made pending first, and then
  replaced: the \<open>older JSON fallback\<close> runs although the tools were used, and the
  pending batch is the block's operation alone. The block is removed from the text.
\<close>

theorem sendMessage_block_replaces_native_operations:
  "sendMessage 1000 2000 (Inr bothSources) envWithKey (idle (js ''Set A1 to 5'')) =
     \<lparr>messages = [userMessage 1000 (js ''Set A1 to 5''), assistantMessage 2000 (js ''Done.'')],
      input = [], isLoading = False, error = None, pendingActions = JArr [setB2], parseFailures = 0\<rparr>
   \<and> toolCalls bothSources = Some [nativeCall [setA1]]
   \<and> flatOperations [nativeCall [setA1]] = Inr [setA1]
   \<and> setB2 \<noteq> setA1"
  by (simp add: send_eval json_eval bothSources_def setA1_def setB2_def)

text \<open>
  C5 (the code departs from it). The reply holds a block that is not JSON. No operation
  becomes pending and the reply is not lost, but the message shown is the reply as it
  came, block included. The earlier component, on the same reply, shows the text
  without the block.
\<close>

theorem sendMessage_malformed_block_is_shown:
  "sendMessage 1000 2000 (Inr \<lparr>responseText = JStr malformedBlock, toolCalls = None\<rparr>) envWithKey (idle (js ''Plan'')) =
     \<lparr>messages = [userMessage 1000 (js ''Plan''), assistantMessage 2000 malformedBlock],
      input = [], isLoading = False, error = None, pendingActions = JArr [], parseFailures = 1\<rparr>
   \<and> str_includes malformedBlock FENCE_OPEN
   \<and> sendMessage_text 1000 2000 (Inr (JStr malformedBlock)) envWithKey (idle (js ''Plan'')) =
     \<lparr>messages = [userMessage 1000 (js ''Plan''), assistantMessage 2000 (js ''Here is the plan.  Let me know.'')],
      input = [], isLoading = False, error = None, pendingActions = JArr [], parseFailures = 1\<rparr>"
  by (simp add: send_eval json_eval malformedBlock_def)


end
